theory Spec2Isabelle
  imports Main
begin

section \<open>Python strings\<close>

text \<open>
  A Python \<open>str\<close> is a sequence of code points. The model takes the code points
  U+0000 .. U+00FF, one \<open>char\<close> each (so \<open>length\<close> counts code points), which covers
  every literal of \<open>scrape_jobs.py\<close>, the letter U+00FC of the alias table included.
  On this range \<open>str.isspace\<close> holds for 9..13, 28..32, 133 and 160, and \<open>str.lower\<close>
  moves A..Z and U+00C0..U+00DE (without U+00D7) up by 32 and leaves the rest alone.
\<close>

definition py_isspace :: "char \<Rightarrow> bool" where
  "py_isspace c =
     (let n = (of_char c :: nat)
      in (9 \<le> n \<and> n \<le> 13) \<or> (28 \<le> n \<and> n \<le> 32) \<or> n = 133 \<or> n = 160)"

definition py_lower_char :: "char \<Rightarrow> char" where
  "py_lower_char c =
     (let n = (of_char c :: nat)
      in if (65 \<le> n \<and> n \<le> 90) \<or> (192 \<le> n \<and> n \<le> 222 \<and> n \<noteq> 215)
         then char_of (n + 32) else c)"

definition py_lower :: "string \<Rightarrow> string" where
  "py_lower s = map py_lower_char s"

text \<open>\<open>s.strip()\<close>: leading and trailing whitespace removed.\<close>

definition py_strip :: "string \<Rightarrow> string" where
  "py_strip s = rev (dropWhile py_isspace (rev (dropWhile py_isspace s)))"

text \<open>\<open>s.split()\<close>: the maximal runs of non-whitespace, in order; no empty word.\<close>

function py_split :: "string \<Rightarrow> string list" where
  "py_split [] = []"
| "py_split (c # cs) =
     (if py_isspace c then py_split cs
      else takeWhile (\<lambda>x. \<not> py_isspace x) (c # cs)
           # py_split (dropWhile (\<lambda>x. \<not> py_isspace x) cs))"
  by pat_completeness auto
termination
  by (relation "measure length") (auto simp: length_dropWhile_le less_Suc_eq_le)

text \<open>\<open>sep.join(ws)\<close>.\<close>

fun py_join :: "string \<Rightarrow> string list \<Rightarrow> string" where
  "py_join sep [] = []"
| "py_join sep [w] = w"
| "py_join sep (w # v # ws) = w @ sep @ py_join sep (v # ws)"

text \<open>\<open>s.split(d)\<close> for a separator of one character: always at least one field.\<close>

function py_split_on :: "char \<Rightarrow> string \<Rightarrow> string list" where
  "py_split_on d s =
     (case dropWhile (\<lambda>x. x \<noteq> d) s of
        [] \<Rightarrow> [s]
      | _ # rest \<Rightarrow> takeWhile (\<lambda>x. x \<noteq> d) s # py_split_on d rest)"
  by pat_completeness auto
termination
proof (relation "measure (\<lambda>(d, s). length s)")
  show "wf (measure (\<lambda>(d, s). length s))" by simp
next
  fix d :: char and s x21 x22
  assume h: "dropWhile (\<lambda>x. x \<noteq> d) s = x21 # x22"
  have "length (dropWhile (\<lambda>x. x \<noteq> d) s) \<le> length s"
    by (rule length_dropWhile_le)
  with h show "((d, x22), (d, s)) \<in> measure (\<lambda>(d, s). length s)" by simp
qed

section \<open>The lookup tables\<close>

definition COUNTRY_ALIASES :: "(string \<times> string) list" where
  "COUNTRY_ALIASES =
     [(''uk'', ''united kingdom''),
      (''united kingdom'', ''united kingdom''),
      (''us'', ''united states''),
      (''usa'', ''united states''),
      (''united states'', ''united states''),
      (CHR ''t'' # CHR 0xFC # ''rkiye'', ''turkey''),
      (''czech republic'', ''czechia'')]"

definition GLASSDOOR_COUNTRY_TO_CITY :: "(string \<times> string) list" where
  "GLASSDOOR_COUNTRY_TO_CITY =
     [(''australia'', ''Sydney''),
      (''austria'', ''Vienna''),
      (''belgium'', ''Brussels''),
      (''brazil'', ''Sao Paulo''),
      (''canada'', ''Toronto''),
      (''france'', ''Paris''),
      (''germany'', ''Berlin''),
      (''hong kong'', ''Hong Kong''),
      (''india'', ''Bengaluru''),
      (''ireland'', ''Dublin''),
      (''italy'', ''Milan''),
      (''mexico'', ''Mexico City''),
      (''netherlands'', ''Amsterdam''),
      (''new zealand'', ''Auckland''),
      (''singapore'', ''Singapore''),
      (''spain'', ''Madrid''),
      (''switzerland'', ''Zurich''),
      (''united kingdom'', ''London''),
      (''united states'', ''New York''),
      (''vietnam'', ''Ho Chi Minh City'')]"

text \<open>\<open>d.get(k, default)\<close> and \<open>d.get(k)\<close> on a dictionary literal with distinct keys.\<close>

definition dict_get_default :: "(string \<times> string) list \<Rightarrow> string \<Rightarrow> string \<Rightarrow> string" where
  "dict_get_default d k dflt = (case map_of d k of Some v \<Rightarrow> v | None \<Rightarrow> dflt)"

definition dict_get :: "(string \<times> string) list \<Rightarrow> string \<Rightarrow> string option" where
  "dict_get d k = map_of d k"

section \<open>The location normalizer\<close>

definition normalize_country_token :: "string \<Rightarrow> string" where
  "normalize_country_token v =
     (let normalized = py_join '' '' (py_split (py_lower (py_strip v)))
      in dict_get_default COUNTRY_ALIASES normalized normalized)"

definition is_country_level_location :: "string \<Rightarrow> string \<Rightarrow> bool" where
  "is_country_level_location location country_indeed =
     (if py_strip location = [] \<or> py_strip country_indeed = [] then False
      else normalize_country_token location = normalize_country_token country_indeed)"

text \<open>
  \<open>country_indeed or location\<close> is \<open>country_indeed\<close> unless that is the empty string.
\<close>

definition glassdoor_city_for_country :: "string \<Rightarrow> string \<Rightarrow> string option" where
  "glassdoor_city_for_country country_indeed location =
     (let country_key =
            normalize_country_token (if country_indeed \<noteq> [] then country_indeed else location)
      in dict_get GLASSDOOR_COUNTRY_TO_CITY country_key)"


section \<open>The configuration resolver\<close>

text \<open>\<open>os.getenv\<close>: the value of a variable, or \<open>None\<close> when it is not set.\<close>

type_synonym environ = "string \<Rightarrow> string option"

definition env_str :: "environ \<Rightarrow> string \<Rightarrow> string \<Rightarrow> string" where
  "env_str getenv name dflt =
     (case getenv name of
        None \<Rightarrow> dflt
      | Some v \<Rightarrow> if v \<noteq> [] \<and> py_strip v \<noteq> [] then v else dflt)"

text \<open>
  \<open>int(s)\<close> on a string, base 10; \<open>None\<close> stands for \<open>ValueError\<close>. CPython skips
  whitespace at both ends (9..13 and 32, and the two non-ASCII spaces 133 and 160, but not
  28..31), reads one optional sign, then ASCII digits in which single underscores may
  stand between two digits, and refuses more than 4300 digits.
\<close>

definition int_isspace :: "char \<Rightarrow> bool" where
  "int_isspace c =
     (let n = (of_char c :: nat)
      in (9 \<le> n \<and> n \<le> 13) \<or> n = 32 \<or> n = 133 \<or> n = 160)"

definition is_digit :: "char \<Rightarrow> bool" where
  "is_digit c = (let n = (of_char c :: nat) in 48 \<le> n \<and> n \<le> 57)"

definition digit_value :: "char \<Rightarrow> int" where
  "digit_value c = int (of_char c) - 48"

fun double_underscore :: "string \<Rightarrow> bool" where
  "double_underscore (a # b # cs) =
     ((a = CHR ''_'' \<and> b = CHR ''_'') \<or> double_underscore (b # cs))"
| "double_underscore _ = False"

definition max_str_digits :: nat where
  "max_str_digits = 4300"

definition py_int :: "string \<Rightarrow> int option" where
  "py_int s =
     (let t = dropWhile int_isspace s;
          (sign, u) = (case t of
                         c # r \<Rightarrow> if c = CHR ''+'' then (1, r)
                                  else if c = CHR ''-'' then (- 1, r) else (1, t)
                       | [] \<Rightarrow> (1, t));
          body = takeWhile (\<lambda>c. is_digit c \<or> c = CHR ''_'') u;
          rest = dropWhile (\<lambda>c. is_digit c \<or> c = CHR ''_'') u;
          digits = filter is_digit body
      in if body = [] \<or> hd body = CHR ''_'' \<or> last body = CHR ''_''
            \<or> double_underscore body
            \<or> \<not> list_all int_isspace rest
            \<or> length digits > max_str_digits
         then None
         else Some (sign * foldl (\<lambda>a c. 10 * a + digit_value c) 0 digits))"

definition env_int :: "environ \<Rightarrow> string \<Rightarrow> int \<Rightarrow> int" where
  "env_int getenv name dflt =
     (case getenv name of
        None \<Rightarrow> dflt
      | Some v \<Rightarrow>
          if py_strip v = [] then dflt
          else (case py_int v of Some n \<Rightarrow> n | None \<Rightarrow> dflt))"

definition env_bool :: "environ \<Rightarrow> string \<Rightarrow> bool \<Rightarrow> bool" where
  "env_bool getenv name dflt =
     (case getenv name of
        None \<Rightarrow> dflt
      | Some v \<Rightarrow>
          if py_strip v = [] then dflt
          else py_lower (py_strip v) \<in> set [''1'', ''true'', ''yes'', ''y'', ''on''])"

definition parse_sites :: "string \<Rightarrow> string list" where
  "parse_sites raw = map py_strip (filter (\<lambda>s. py_strip s \<noteq> []) (py_split_on CHR '','' raw))"

section \<open>The collaborators: jobspy, pandas, pathlib, the console\<close>

text \<open>
  A pandas frame is its column names and its records, in order. \<open>pd.DataFrame()\<close> has
  neither; \<open>pd.concat(frames, ignore_index=True)\<close> keeps every record of every frame,
  in order, under the columns of all of them; \<open>len\<close> counts the records.
\<close>

record 'r frame =
  columns :: "string list"
  rows :: "'r list"

definition pd_DataFrame :: "'r frame" where
  "pd_DataFrame = \<lparr>columns = [], rows = []\<rparr>"

definition pd_concat :: "'r frame list \<Rightarrow> 'r frame" where
  "pd_concat frames =
     \<lparr>columns = remdups (concat (map columns frames)), rows = concat (map rows frames)\<rparr>"

text \<open>The keyword arguments of one call of \<open>jobspy.scrape_jobs\<close>; \<open>kw_location\<close> is
  \<open>None\<close> when the key is not passed.\<close>

record kwargs =
  kw_site_name :: "string list"
  kw_search_term :: string
  kw_results_wanted :: int
  kw_hours_old :: int
  kw_country_indeed :: string
  kw_linkedin_fetch_description :: bool
  kw_is_remote :: bool
  kw_location :: "string option"

datatype exn = Exception string

text \<open>
  What a run sees of the outside: the environment, the fetch capability (which returns a
  frame or raises) and \<open>pathlib\<close>. A \<open>Path\<close> object is kept as the string \<open>str\<close> gives
  for it: \<open>path_str s\<close> is \<open>str(Path(s))\<close>, and \<open>with_suffix p suffix\<close> is
  \<open>str(p.with_suffix(suffix))\<close>, which raises \<open>ValueError\<close> for a path without a file
  name. Creating directories and writing files are recorded as effects that succeed:
  what the operating system may refuse there is not part of the model.
\<close>

record 'r world =
  getenv :: environ
  scrape_jobs :: "kwargs \<Rightarrow> exn + 'r frame"
  path_str :: "string \<Rightarrow> string"
  with_suffix :: "string \<Rightarrow> string \<Rightarrow> exn + string"

text \<open>
  The effects of a run, in the order they happen: the text of one call of \<open>print\<close>,
  \<open>path.parent.mkdir(parents=True, exist_ok=True)\<close>, one call of \<open>scrape_jobs\<close> with
  its outcome, the delimited file (header row, then one record per row; written with
  \<open>QUOTE_NONNUMERIC\<close>, escape character backslash, no index column) and the document of
  records (\<open>orient="records"\<close>).
\<close>

datatype 'r effect =
    Stdout string
  | MkdirParent string
  | Scrape kwargs "exn + 'r frame"
  | ToCsv string "string list" "'r list"
  | ToJson string "'r list"

text \<open>A computation: the effects so far, and a value or the exception that ended it.\<close>

type_synonym ('r, 'a) io = "'r effect list \<times> (exn + 'a)"

definition io_return :: "'a \<Rightarrow> ('r, 'a) io" where
  "io_return x = ([], Inr x)"

definition io_bind :: "('r, 'a) io \<Rightarrow> ('a \<Rightarrow> ('r, 'b) io) \<Rightarrow> ('r, 'b) io" where
  "io_bind m f =
     (case m of
        (t, Inl e) \<Rightarrow> (t, Inl e)
      | (t, Inr x) \<Rightarrow> (case f x of (t', r) \<Rightarrow> (t @ t', r)))"

definition io_then :: "('r, unit) io \<Rightarrow> ('r, 'b) io \<Rightarrow> ('r, 'b) io" where
  "io_then m k = io_bind m (\<lambda>_. k)"

definition io_do :: "'r effect \<Rightarrow> ('r, unit) io" where
  "io_do e = ([e], Inr ())"

definition print :: "string \<Rightarrow> ('r, unit) io" where
  "print line = io_do (Stdout line)"

subsection \<open>Rendering\<close>

definition digit_char :: "nat \<Rightarrow> char" where
  "digit_char n = char_of (48 + n)"

function str_nat :: "nat \<Rightarrow> string" where
  "str_nat n = (if n < 10 then [digit_char n] else str_nat (n div 10) @ [digit_char (n mod 10)])"
  by pat_completeness auto
termination
  by (relation "measure id") auto

definition str_int :: "int \<Rightarrow> string" where
  "str_int i = (if i < 0 then CHR ''-'' # str_nat (nat (- i)) else str_nat (nat i))"

text \<open>\<open>json.dumps(d, ensure_ascii=True)\<close> for a dictionary of strings and integers.\<close>

datatype jval = JInt int | JStr string

definition hex_char :: "nat \<Rightarrow> char" where
  "hex_char n = (if n < 10 then char_of (48 + n) else char_of (87 + n))"

definition json_escape_char :: "char \<Rightarrow> string" where
  "json_escape_char c =
     (let n = (of_char c :: nat)
      in if n = 34 then [CHR 0x5C, CHR 0x22]
         else if n = 92 then [CHR 0x5C, CHR 0x5C]
         else if n = 10 then [CHR 0x5C, CHR ''n'']
         else if n = 13 then [CHR 0x5C, CHR ''r'']
         else if n = 9 then [CHR 0x5C, CHR ''t'']
         else if n = 12 then [CHR 0x5C, CHR ''f'']
         else if n = 8 then [CHR 0x5C, CHR ''b'']
         else if 32 \<le> n \<and> n \<le> 126 then [c]
         else [CHR 0x5C, CHR ''u'', CHR ''0'', CHR ''0'', hex_char (n div 16), hex_char (n mod 16)])"

definition json_str :: "string \<Rightarrow> string" where
  "json_str s = [CHR 0x22] @ concat (map json_escape_char s) @ [CHR 0x22]"

fun json_value :: "jval \<Rightarrow> string" where
  "json_value (JInt i) = str_int i"
| "json_value (JStr s) = json_str s"

definition json_dumps :: "(string \<times> jval) list \<Rightarrow> string" where
  "json_dumps d =
     ''{'' @ py_join '', '' (map (\<lambda>(k, v). json_str k @ '': '' @ json_value v) d) @ ''}''"

text \<open>\<open>d[k] = v\<close> on a dictionary kept in insertion order.\<close>

fun dict_set :: "string \<Rightarrow> jval \<Rightarrow> (string \<times> jval) list \<Rightarrow> (string \<times> jval) list" where
  "dict_set k v [] = [(k, v)]"
| "dict_set k v ((k', v') # d) = (if k = k' then (k, v) # d else (k', v') # dict_set k v d)"

section \<open>The progress emitter\<close>

definition PROGRESS_PREFIX :: string where
  "PROGRESS_PREFIX = ''JOBOPS_PROGRESS ''"

definition emit_progress :: "string \<Rightarrow> (string \<times> jval) list \<Rightarrow> ('r, unit) io" where
  "emit_progress event payload =
     (let serialized = json_dumps (fold (\<lambda>(k, v). dict_set k v) payload [(''event'', JStr event)])
      in print (PROGRESS_PREFIX @ serialized))"

section \<open>The site dispatcher and the run\<close>

definition scrape_for_sites ::
  "'r world \<Rightarrow> string list \<Rightarrow> string \<Rightarrow> string option \<Rightarrow> int \<Rightarrow> int \<Rightarrow> string \<Rightarrow> bool \<Rightarrow> bool
     \<Rightarrow> ('r, 'r frame) io" where
  "scrape_for_sites w sites search_term location results_wanted hours_old country_indeed
       linkedin_fetch_description is_remote =
     (let kwargs = \<lparr>kw_site_name = sites, kw_search_term = search_term,
                     kw_results_wanted = results_wanted, kw_hours_old = hours_old,
                     kw_country_indeed = country_indeed,
                     kw_linkedin_fetch_description = linkedin_fetch_description,
                     kw_is_remote = is_remote, kw_location = None\<rparr>;
          kwargs = (case location of
                      Some l \<Rightarrow> if l \<noteq> [] \<and> py_strip l \<noteq> []
                                then kwargs\<lparr>kw_location := Some l\<rparr> else kwargs
                    | None \<Rightarrow> kwargs)
      in ([Scrape kwargs (scrape_jobs w kwargs)], scrape_jobs w kwargs))"

text \<open>The settings \<open>main\<close> reads at its start (lines 116 to 130), the two paths as
  \<open>str\<close> prints them.\<close>

record config =
  cfg_sites :: "string list"
  cfg_search_term :: string
  cfg_location :: string
  cfg_results_wanted :: int
  cfg_hours_old :: int
  cfg_country_indeed :: string
  cfg_linkedin_fetch_description :: bool
  cfg_is_remote :: bool
  cfg_term_index :: int
  cfg_term_total :: int
  cfg_output_csv :: string
  cfg_output_json :: string

definition read_config :: "'r world \<Rightarrow> exn + config" where
  "read_config w =
     (let output_csv = path_str w (env_str (getenv w) ''JOBSPY_OUTPUT_CSV'' ''jobs.csv'')
      in case with_suffix w output_csv ''.json'' of
           Inl e \<Rightarrow> Inl e
         | Inr default_json \<Rightarrow>
             Inr \<lparr>cfg_sites = parse_sites (env_str (getenv w) ''JOBSPY_SITES'' ''indeed,linkedin''),
                  cfg_search_term = env_str (getenv w) ''JOBSPY_SEARCH_TERM'' ''web developer'',
                  cfg_location = env_str (getenv w) ''JOBSPY_LOCATION'' ''UK'',
                  cfg_results_wanted = env_int (getenv w) ''JOBSPY_RESULTS_WANTED'' 200,
                  cfg_hours_old = env_int (getenv w) ''JOBSPY_HOURS_OLD'' 72,
                  cfg_country_indeed = env_str (getenv w) ''JOBSPY_COUNTRY_INDEED'' ''UK'',
                  cfg_linkedin_fetch_description =
                    env_bool (getenv w) ''JOBSPY_LINKEDIN_FETCH_DESCRIPTION'' True,
                  cfg_is_remote = env_bool (getenv w) ''JOBSPY_IS_REMOTE'' False,
                  cfg_term_index = env_int (getenv w) ''JOBSPY_TERM_INDEX'' 1,
                  cfg_term_total = env_int (getenv w) ''JOBSPY_TERM_TOTAL'' 1,
                  cfg_output_csv = output_csv,
                  cfg_output_json =
                    path_str w (env_str (getenv w) ''JOBSPY_OUTPUT_JSON'' default_json)\<rparr>)"

text \<open>The generic group (lines 145 to 159): the frames it adds to \<open>frames\<close>.\<close>

definition scrape_non_glassdoor :: "'r world \<Rightarrow> config \<Rightarrow> ('r, 'r frame list) io" where
  "scrape_non_glassdoor w c =
     (let non_glassdoor_sites = filter (\<lambda>site. site \<noteq> ''glassdoor'') (cfg_sites c)
      in if non_glassdoor_sites \<noteq> []
         then io_bind
                (scrape_for_sites w non_glassdoor_sites (cfg_search_term c) (Some (cfg_location c))
                   (cfg_results_wanted c) (cfg_hours_old c) (cfg_country_indeed c)
                   (cfg_linkedin_fetch_description c) (cfg_is_remote c))
                (\<lambda>df. io_return [df])
         else io_return [])"

text \<open>The city-granularity group (lines 161 to 187): first the location it is asked
  for (lines 162 to 175), then its one fetch.\<close>

definition choose_glassdoor_location :: "config \<Rightarrow> ('r, string) io" where
  "choose_glassdoor_location c =
     (if is_country_level_location (cfg_location c) (cfg_country_indeed c)
      then (case glassdoor_city_for_country (cfg_country_indeed c) (cfg_location c) of
              Some fallback_city \<Rightarrow>
                if fallback_city \<noteq> []
                then io_then
                       (print (''jobspy: Glassdoor location matched country; using city fallback (''
                               @ fallback_city @ '')''))
                       (io_return fallback_city)
                else io_then
                       (print ''jobspy: Glassdoor location matched country; keeping original location'')
                       (io_return (cfg_location c))
            | None \<Rightarrow>
                io_then
                  (print ''jobspy: Glassdoor location matched country; keeping original location'')
                  (io_return (cfg_location c)))
      else io_return (cfg_location c))"

definition scrape_glassdoor :: "'r world \<Rightarrow> config \<Rightarrow> ('r, 'r frame list) io" where
  "scrape_glassdoor w c =
     (if ''glassdoor'' \<in> set (cfg_sites c)
      then io_bind (choose_glassdoor_location c) (\<lambda>glassdoor_location.
           io_bind
             (scrape_for_sites w [''glassdoor''] (cfg_search_term c) (Some glassdoor_location)
                (cfg_results_wanted c) (cfg_hours_old c) (cfg_country_indeed c)
                (cfg_linkedin_fetch_description c) (cfg_is_remote c))
             (\<lambda>df. io_return [df]))
      else io_return [])"

definition to_csv :: "string \<Rightarrow> 'r frame \<Rightarrow> ('r, unit) io" where
  "to_csv path jobs = io_do (ToCsv path (columns jobs) (rows jobs))"

definition to_json :: "string \<Rightarrow> 'r frame \<Rightarrow> ('r, unit) io" where
  "to_json path jobs = io_do (ToJson path (rows jobs))"

text \<open>The run after the settings are read (lines 132 to 212).\<close>

definition run :: "'r world \<Rightarrow> config \<Rightarrow> ('r, int) io" where
  "run w c =
     io_then (io_do (MkdirParent (cfg_output_csv c)))
    (io_then (io_do (MkdirParent (cfg_output_json c)))
    (io_then (print (''jobspy: Search term: '' @ cfg_search_term c))
    (io_then (emit_progress ''term_start''
                [(''termIndex'', JInt (cfg_term_index c)),
                 (''termTotal'', JInt (cfg_term_total c)),
                 (''searchTerm'', JStr (cfg_search_term c))])
    (io_bind (scrape_non_glassdoor w c) (\<lambda>frames1.
     io_bind (scrape_glassdoor w c) (\<lambda>frames2.
     let frames = frames1 @ frames2;
         jobs = (if frames \<noteq> [] then pd_concat frames else pd_DataFrame)
     in io_then (print (''Found '' @ str_nat (length (rows jobs)) @ '' jobs''))
       (io_then (emit_progress ''term_complete''
                   [(''termIndex'', JInt (cfg_term_index c)),
                    (''termTotal'', JInt (cfg_term_total c)),
                    (''searchTerm'', JStr (cfg_search_term c)),
                    (''jobsFoundTerm'', JInt (int (length (rows jobs))))])
       (io_then (to_csv (cfg_output_csv c) jobs)
       (io_then (to_json (cfg_output_json c) jobs)
       (io_then (print (''Wrote CSV:  '' @ cfg_output_csv c))
       (io_then (print (''Wrote JSON: '' @ cfg_output_json c))
       (io_return 0))))))))))))"

text \<open>\<open>main\<close>: the settings, then the run; nothing has happened yet when the default
  name of the document cannot be built.\<close>

definition main :: "'r world \<Rightarrow> ('r, int) io" where
  "main w = (case read_config w of Inl e \<Rightarrow> ([], Inl e) | Inr c \<Rightarrow> run w c)"

section \<open>Reading a trace\<close>

text \<open>The calls of \<open>scrape_jobs\<close> in a trace, and the frames the successful ones returned.\<close>

fun scrape_calls :: "'r effect list \<Rightarrow> kwargs list" where
  "scrape_calls [] = []"
| "scrape_calls (Scrape kw r # t) = kw # scrape_calls t"
| "scrape_calls (_ # t) = scrape_calls t"

fun fetched :: "'r effect list \<Rightarrow> 'r frame list" where
  "fetched [] = []"
| "fetched (Scrape kw (Inr df) # t) = df # fetched t"
| "fetched (_ # t) = fetched t"

text \<open>The records written to the delimited files and to the documents of a trace.\<close>

fun csv_batches :: "'r effect list \<Rightarrow> 'r list list" where
  "csv_batches [] = []"
| "csv_batches (ToCsv p h rs # t) = rs # csv_batches t"
| "csv_batches (_ # t) = csv_batches t"

fun json_batches :: "'r effect list \<Rightarrow> 'r list list" where
  "json_batches [] = []"
| "json_batches (ToJson p rs # t) = rs # json_batches t"
| "json_batches (_ # t) = json_batches t"

fun is_scrape :: "'r effect \<Rightarrow> bool" where
  "is_scrape (Scrape kw r) = True"
| "is_scrape _ = False"

text \<open>A progress line is a printed line that starts with the marker.\<close>

fun is_progress :: "'r effect \<Rightarrow> bool" where
  "is_progress (Stdout l) = (take (length PROGRESS_PREFIX) l = PROGRESS_PREFIX)"
| "is_progress _ = False"

fun fetch_is_empty :: "'r effect \<Rightarrow> bool" where
  "fetch_is_empty (Scrape kw (Inr df)) = (rows df = [])"
| "fetch_is_empty (Scrape kw (Inl e)) = False"
| "fetch_is_empty _ = True"

text \<open>The two progress lines a run is expected to print, the second with the count.\<close>

definition term_start_line :: "config \<Rightarrow> string" where
  "term_start_line c =
     PROGRESS_PREFIX @ json_dumps
       [(''event'', JStr ''term_start''),
        (''termIndex'', JInt (cfg_term_index c)),
        (''termTotal'', JInt (cfg_term_total c)),
        (''searchTerm'', JStr (cfg_search_term c))]"

definition term_complete_line :: "config \<Rightarrow> nat \<Rightarrow> string" where
  "term_complete_line c n =
     PROGRESS_PREFIX @ json_dumps
       [(''event'', JStr ''term_complete''),
        (''termIndex'', JInt (cfg_term_index c)),
        (''termTotal'', JInt (cfg_term_total c)),
        (''searchTerm'', JStr (cfg_search_term c)),
        (''jobsFoundTerm'', JInt (int n))]"

section \<open>The dispatcher as the specification words it\<close>

text \<open>
  The generic group is every requested site other than the city-granularity site; the
  city-granularity group is that site alone, when it was requested.
\<close>

definition spec_generic_group :: "string list \<Rightarrow> string list" where
  "spec_generic_group requested = filter (\<lambda>s. s \<noteq> ''glassdoor'') requested"

definition spec_city_group :: "string list \<Rightarrow> string list" where
  "spec_city_group requested = (if ''glassdoor'' \<in> set requested then [''glassdoor''] else [])"

text \<open>
  The effective location of the city-granularity group: the fallback city when the
  location is country-level and the table has one, else the location as given.
\<close>

definition spec_effective_location :: "string \<Rightarrow> string \<Rightarrow> string" where
  "spec_effective_location loc country =
     (if is_country_level_location loc country
      then (case glassdoor_city_for_country country loc of
              Some city \<Rightarrow> city
            | None \<Rightarrow> loc)
      else loc)"

text \<open>A text between double quotes, for writing the expected progress lines.\<close>

definition dq :: "string \<Rightarrow> string" where
  "dq s = CHR 0x22 # s @ [CHR 0x22]"

section \<open>Example runs\<close>

text \<open>
  Worlds to run the program in: the scenario of the specification (two sites, the
  location a country), a sites variable that names no site, the city-granularity site
  named first with a city as the location, a country the city table does not have, the
  defaults with a fetch capability that finds nothing, and a number of results that is
  no number. Records are numbers here.
\<close>

definition uk_world :: "nat world" where
  "uk_world =
     \<lparr>getenv = map_of [(''JOBSPY_SITES'', ''indeed,glassdoor''),
                        (''JOBSPY_LOCATION'', ''United Kingdom''),
                        (''JOBSPY_COUNTRY_INDEED'', ''UK'')],
      scrape_jobs = (\<lambda>kw. Inr \<lparr>columns = [''title''],
                                 rows = (if kw_site_name kw = [''glassdoor''] then [1, 2] else [3])\<rparr>),
      path_str = (\<lambda>s. s),
      with_suffix = (\<lambda>p s. Inr (''jobs'' @ s))\<rparr>"

definition no_sites_world :: "nat world" where
  "no_sites_world =
     \<lparr>getenv = map_of [(''JOBSPY_SITES'', '','')],
      scrape_jobs = (\<lambda>kw. Inl (Exception ''unreachable'')),
      path_str = (\<lambda>s. s),
      with_suffix = (\<lambda>p s. Inr (''jobs'' @ s))\<rparr>"

definition glassdoor_first_world :: "nat world" where
  "glassdoor_first_world =
     \<lparr>getenv = map_of [(''JOBSPY_SITES'', ''glassdoor, indeed,linkedin''),
                        (''JOBSPY_LOCATION'', ''Manchester''),
                        (''JOBSPY_COUNTRY_INDEED'', ''UK'')],
      scrape_jobs = (\<lambda>kw. Inr \<lparr>columns = [''title''],
                                 rows = (if kw_site_name kw = [''glassdoor''] then [7] else [8, 9])\<rparr>),
      path_str = (\<lambda>s. s),
      with_suffix = (\<lambda>p s. Inr (''jobs'' @ s))\<rparr>"

definition unmapped_country_world :: "nat world" where
  "unmapped_country_world =
     \<lparr>getenv = map_of [(''JOBSPY_SITES'', ''glassdoor''),
                        (''JOBSPY_LOCATION'', ''Portugal''),
                        (''JOBSPY_COUNTRY_INDEED'', '' portugal '')],
      scrape_jobs = (\<lambda>kw. Inr pd_DataFrame),
      path_str = (\<lambda>s. s),
      with_suffix = (\<lambda>p s. Inr (''jobs'' @ s))\<rparr>"

definition quiet_world :: "nat world" where
  "quiet_world =
     \<lparr>getenv = (\<lambda>name. None),
      scrape_jobs = (\<lambda>kw. Inr pd_DataFrame),
      path_str = (\<lambda>s. s),
      with_suffix = (\<lambda>p s. Inr (''jobs'' @ s))\<rparr>"

definition unparsable_world :: "nat world" where
  "unparsable_world =
     \<lparr>getenv = map_of [(''JOBSPY_SITES'', ''indeed''),
                        (''JOBSPY_RESULTS_WANTED'', ''abc'')],
      scrape_jobs = (\<lambda>kw. Inr \<lparr>columns = [''title''], rows = [4]\<rparr>),
      path_str = (\<lambda>s. s),
      with_suffix = (\<lambda>p s. Inr (''jobs'' @ s))\<rparr>"

section \<open>The normalizer as the specification words it\<close>

text \<open>
  Lower-case, collapse whitespace, trim, then resolve through the alias table:
  every run of whitespace becomes one space, then the spaces at both ends go.
\<close>

function collapse_ws :: "string \<Rightarrow> string" where
  "collapse_ws [] = []"
| "collapse_ws (c # cs) =
     (if py_isspace c then CHR '' '' # collapse_ws (dropWhile py_isspace cs)
      else c # collapse_ws cs)"
  by pat_completeness auto
termination
  by (relation "measure length") (auto simp: length_dropWhile_le less_Suc_eq_le)

definition spec_trim :: "string \<Rightarrow> string" where
  "spec_trim s = rev (dropWhile py_isspace (rev (dropWhile py_isspace s)))"

definition spec_alias_resolve :: "string \<Rightarrow> string" where
  "spec_alias_resolve k = (case map_of COUNTRY_ALIASES k of Some v \<Rightarrow> v | None \<Rightarrow> k)"

definition spec_normalize :: "string \<Rightarrow> string" where
  "spec_normalize text = spec_alias_resolve (spec_trim (collapse_ws (map py_lower_char text)))"

text \<open>Auxiliary notions of the proofs: a word of \<open>split\<close>, and stripping on the right.\<close>

definition word_ok :: "string \<Rightarrow> bool" where
  "word_ok w = (w \<noteq> [] \<and> list_all (\<lambda>x. \<not> py_isspace x) w)"

definition rstrip :: "string \<Rightarrow> string" where
  "rstrip s = rev (dropWhile py_isspace (rev s))"

declare str_nat.simps [simp del]
declare py_split_on.simps [simp del]

section \<open>Facts about the string functions\<close>

lemma isspace_lower [simp]: "py_isspace (py_lower_char c) = py_isspace c"
  by (auto simp: py_isspace_def py_lower_char_def Let_def)

lemma lower_char_idem [simp]: "py_lower_char (py_lower_char c) = py_lower_char c"
  by (auto simp: py_lower_char_def Let_def)

lemma isspace_space [simp]: "py_isspace CHR '' ''"
  by (simp add: py_isspace_def)

lemma lower_idem [simp]: "py_lower (py_lower s) = py_lower s"
  by (simp add: py_lower_def)

lemma isspace_lower_comp [simp]: "py_isspace \<circ> py_lower_char = py_isspace"
  by (rule ext) simp

lemma nonspace_lower_comp [simp]: "(\<lambda>x. \<not> py_isspace x) \<circ> py_lower_char = (\<lambda>x. \<not> py_isspace x)"
  by (rule ext) simp

lemma strip_lower: "py_strip (py_lower s) = py_lower (py_strip s)"
  by (simp add: py_strip_def py_lower_def dropWhile_map rev_map)

lemma split_lower: "py_split (py_lower s) = map py_lower (py_split s)"
proof (induction s rule: py_split.induct)
  case 1
  show ?case by (simp add: py_lower_def)
next
  case (2 c cs)
  then show ?case
    by (simp add: py_lower_def takeWhile_map dropWhile_map)
qed

lemma split_dropWhile: "py_split (dropWhile py_isspace s) = py_split s"
  by (induction s) simp_all

lemma split_all_space: "\<forall>x\<in>set s. py_isspace x \<Longrightarrow> py_split s = []"
  by (induction s) simp_all

lemma split_append_space: "\<forall>x\<in>set t. py_isspace x \<Longrightarrow> py_split (s @ t) = py_split s"
proof (induction s rule: py_split.induct)
  case 1
  then show ?case by (simp add: split_all_space)
next
  case (2 c cs)
  show ?case
  proof (cases "py_isspace c")
    case True
    with 2 show ?thesis by simp
  next
    case False
    let ?N = "\<lambda>x. \<not> py_isspace x"
    have tk: "takeWhile ?N (cs @ t) = takeWhile ?N cs"
    proof (cases "\<forall>x\<in>set cs. ?N x")
      case True
      moreover have "takeWhile ?N t = []"
        using 2(3) by (cases t) simp_all
      ultimately show ?thesis
        by (simp add: takeWhile_append takeWhile_eq_all_conv[THEN iffD2])
    next
      case False
      then obtain x where "x \<in> set cs" "\<not> ?N x" by blast
      then show ?thesis by (rule takeWhile_append1)
    qed
    have dr: "py_split (dropWhile ?N (cs @ t)) = py_split (dropWhile ?N cs)"
    proof (cases "\<forall>x\<in>set cs. ?N x")
      case True
      moreover have "dropWhile ?N t = t"
        using 2(3) by (cases t) simp_all
      ultimately show ?thesis
        using 2(3) by (simp add: dropWhile_append split_all_space dropWhile_eq_Nil_conv[THEN iffD2])
    next
      case nt: False
      then obtain x where "x \<in> set cs" "\<not> ?N x" by blast
      then have "dropWhile ?N (cs @ t) = dropWhile ?N cs @ t"
        by (rule dropWhile_append1)
      with 2(2)[OF False 2(3)] show ?thesis by simp
    qed
    from False tk dr show ?thesis by simp
  qed
qed

lemma split_rstrip: "py_split (rev (dropWhile py_isspace (rev s))) = py_split s"
proof -
  have "s = rev (dropWhile py_isspace (rev s)) @ rev (takeWhile py_isspace (rev s))"
    by (metis rev_append rev_rev_ident takeWhile_dropWhile_id)
  moreover have "\<forall>x\<in>set (rev (takeWhile py_isspace (rev s))). py_isspace x"
    by (auto dest: set_takeWhileD)
  ultimately show ?thesis
    by (metis split_append_space)
qed

lemma split_strip: "py_split (py_strip s) = py_split s"
  by (simp add: py_strip_def split_rstrip split_dropWhile)

lemma canon_alt:
  "py_join '' '' (py_split (py_lower (py_strip v))) = py_join '' '' (map py_lower (py_split v))"
  by (simp add: strip_lower[symmetric] split_strip split_lower)

lemma split_words_ok: "w \<in> set (py_split s) \<Longrightarrow> word_ok w"
proof (induction s rule: py_split.induct)
  case 1
  then show ?case by simp
next
  case (2 c cs)
  show ?case
  proof (cases "py_isspace c")
    case True
    with 2 show ?thesis by simp
  next
    case False
    with 2(3) consider "w = c # takeWhile (\<lambda>x. \<not> py_isspace x) cs"
      | "w \<in> set (py_split (dropWhile (\<lambda>x. \<not> py_isspace x) cs))"
      by auto
    then show ?thesis
    proof cases
      case 1
      with False show ?thesis
        by (auto simp: word_ok_def list_all_iff dest: set_takeWhileD)
    next
      case 2
      with "2.IH"(2)[OF False] show ?thesis by simp
    qed
  qed
qed

lemma split_word_append:
  assumes "word_ok w" "r = [] \<or> py_isspace (hd r)"
  shows "py_split (w @ r) = w # py_split r"
proof -
  from assms(1) obtain c cs where w: "w = c # cs" "\<not> py_isspace c" "\<forall>x\<in>set cs. \<not> py_isspace x"
    by (cases w) (auto simp: word_ok_def list_all_iff)
  show ?thesis
  proof (cases r)
    case Nil
    with w show ?thesis
      by (simp add: takeWhile_eq_all_conv[THEN iffD2] dropWhile_eq_Nil_conv[THEN iffD2])
  next
    case (Cons d ds)
    with assms(2) have "py_isspace d" by simp
    with w Cons show ?thesis
      by (simp add: takeWhile_append dropWhile_append
          takeWhile_eq_all_conv[THEN iffD2] dropWhile_eq_Nil_conv[THEN iffD2])
  qed
qed

lemma split_join:
  "\<forall>w\<in>set ws. word_ok w \<Longrightarrow> py_split (py_join '' '' ws) = ws"
proof (induction "'' ''" ws rule: py_join.induct)
  case 1
  show ?case by simp
next
  case (2 w)
  then have "word_ok w" by simp
  from split_word_append[OF this, of "[]"] show ?case by simp
next
  case (3 w v ws)
  then have w: "word_ok w" and ih: "py_split (py_join '' '' (v # ws)) = v # ws"
    by simp_all
  have "py_split (w @ CHR '' '' # py_join '' '' (v # ws)) = w # py_split (CHR '' '' # py_join '' '' (v # ws))"
    by (rule split_word_append[OF w]) simp
  with ih show ?case by simp
qed

lemma word_ok_lower: "word_ok w \<Longrightarrow> word_ok (py_lower w)"
  by (simp add: word_ok_def list_all_iff py_lower_def)

lemma map_lower_idem: "map py_lower (map py_lower ws) = map py_lower ws"
  by (induction ws) simp_all

lemma canon_idem:
  "py_join '' '' (py_split (py_lower (py_strip (py_join '' '' (py_split (py_lower (py_strip v))))))) =
   py_join '' '' (py_split (py_lower (py_strip v)))"
proof -
  let ?ws = "map py_lower (py_split v)"
  have ok: "\<forall>w\<in>set ?ws. word_ok w"
    by (auto intro: word_ok_lower split_words_ok)
  have sj: "py_split (py_join '' '' ?ws) = ?ws"
    by (rule split_join[OF ok])
  have "py_join '' '' (py_split (py_lower (py_strip (py_join '' '' ?ws)))) =
        py_join '' '' (map py_lower (py_split (py_join '' '' ?ws)))"
    by (rule canon_alt)
  also have "\<dots> = py_join '' '' ?ws"
    by (simp only: sj map_lower_idem)
  finally show ?thesis
    by (simp only: canon_alt)
qed

lemma trim_rstrip: "spec_trim s = rstrip (dropWhile py_isspace s)"
  by (simp add: spec_trim_def rstrip_def)

lemma rstrip_Nil_iff: "rstrip b = [] \<longleftrightarrow> (\<forall>x\<in>set b. py_isspace x)"
  by (simp add: rstrip_def dropWhile_eq_Nil_conv)

lemma rstrip_append:
  "rstrip (a @ b) = (if rstrip b = [] then rstrip a else a @ rstrip b)"
  by (auto simp: rstrip_def dropWhile_append dropWhile_eq_Nil_conv)

lemma rstrip_word: "word_ok w \<Longrightarrow> rstrip w = w"
proof -
  assume "word_ok w"
  then have "w \<noteq> []" "\<not> py_isspace (last w)"
    by (auto simp: word_ok_def list_all_iff)
  then show ?thesis
    by (cases w rule: rev_cases) (simp_all add: rstrip_def)
qed

lemma collapse_word_append:
  "\<forall>x\<in>set w. \<not> py_isspace x \<Longrightarrow> collapse_ws (w @ r) = w @ collapse_ws r"
  by (induction w) simp_all

lemma lstrip_collapse_lstrip:
  "dropWhile py_isspace (collapse_ws (dropWhile py_isspace x)) = collapse_ws (dropWhile py_isspace x)"
proof -
  define r where "r = dropWhile py_isspace x"
  have "r = [] \<or> \<not> py_isspace (hd r)"
    unfolding r_def by (metis hd_dropWhile)
  then have "dropWhile py_isspace (collapse_ws r) = collapse_ws r"
    by (cases r) auto
  then show ?thesis by (simp only: r_def)
qed

lemma trim_collapse_lstrip:
  "spec_trim (collapse_ws (dropWhile py_isspace cs)) = spec_trim (collapse_ws cs)"
  by (cases cs) (simp_all add: spec_trim_def)

lemma join_eq_Nil: "\<forall>w\<in>set ws. word_ok w \<Longrightarrow> py_join sep ws = [] \<Longrightarrow> ws = []"
  by (induction sep ws rule: py_join.induct) (simp_all add: word_ok_def list_all_iff)

lemma rstrip_space_cons:
  "rstrip (CHR '' '' # y) = (if rstrip y = [] then [] else CHR '' '' # rstrip y)"
  using rstrip_append[of "[CHR '' '']" y] by (simp add: rstrip_def)

lemma join_Cons: "py_join sep (w # ws) = (if ws = [] then w else w @ sep @ py_join sep ws)"
  by (cases ws) simp_all

lemma rstrip_word_collapse:
  assumes w: "word_ok w" and r: "r = [] \<or> py_isspace (hd r)"
    and ih: "spec_trim (collapse_ws r) = py_join '' '' (py_split r)"
  shows "rstrip (w @ collapse_ws r) = py_join '' '' (w # py_split r)"
proof (cases r)
  case Nil
  then show ?thesis by (simp add: rstrip_word[OF w])
next
  case (Cons d ds)
  with r have d: "py_isspace d" by simp
  define y where "y = collapse_ws (dropWhile py_isspace ds)"
  from Cons d have c: "collapse_ws r = CHR '' '' # y"
    by (simp add: y_def)
  have "spec_trim (collapse_ws r) = rstrip y"
    unfolding c by (simp add: trim_rstrip y_def lstrip_collapse_lstrip)
  with ih have ry: "rstrip y = py_join '' '' (py_split r)" by simp
  have ok: "\<forall>v\<in>set (py_split r). word_ok v"
    by (simp add: split_words_ok)
  show ?thesis
  proof (cases "py_split r = []")
    case True
    with ry have "rstrip y = []" by simp
    then have "rstrip (w @ CHR '' '' # y) = w"
      by (simp add: rstrip_append rstrip_space_cons rstrip_word[OF w])
    with c True show ?thesis by simp
  next
    case False
    have ne: "rstrip y \<noteq> []"
    proof
      assume "rstrip y = []"
      with ry have "py_join '' '' (py_split r) = []" by simp
      from join_eq_Nil[OF ok this] False show False by simp
    qed
    then have "rstrip (w @ CHR '' '' # y) = w @ CHR '' '' # rstrip y"
      by (simp add: rstrip_append rstrip_space_cons)
    with c False ry show ?thesis by (simp add: join_Cons)
  qed
qed

lemma trim_collapse: "spec_trim (collapse_ws s) = py_join '' '' (py_split s)"
proof (induction s rule: py_split.induct)
  case 1
  show ?case by (simp add: spec_trim_def)
next
  case (2 c cs)
  show ?case
  proof (cases "py_isspace c")
    case True
    then have "spec_trim (collapse_ws (c # cs)) = spec_trim (collapse_ws (dropWhile py_isspace cs))"
      by (simp add: spec_trim_def)
    also have "\<dots> = spec_trim (collapse_ws cs)"
      by (rule trim_collapse_lstrip)
    finally show ?thesis using 2(1)[OF True] True by simp
  next
    case False
    let ?N = "\<lambda>x. \<not> py_isspace x"
    define w where "w = c # takeWhile ?N cs"
    define rest where "rest = dropWhile ?N cs"
    have wok: "word_ok w"
      using False by (auto simp: w_def word_ok_def list_all_iff dest: set_takeWhileD)
    have rest: "rest = [] \<or> py_isspace (hd rest)"
      unfolding rest_def using hd_dropWhile[of ?N cs] by blast
    have dec: "c # cs = w @ rest" by (simp add: w_def rest_def)
    have col: "collapse_ws (c # cs) = w @ collapse_ws rest"
      unfolding dec using wok by (intro collapse_word_append) (simp add: word_ok_def list_all_iff)
    have ih: "spec_trim (collapse_ws rest) = py_join '' '' (py_split rest)"
      unfolding rest_def using 2(2)[OF False] .
    have sp: "py_split (c # cs) = w # py_split rest"
      using False by (simp add: w_def rest_def)
    have "spec_trim (w @ collapse_ws rest) = rstrip (w @ collapse_ws rest)"
      using False by (simp add: trim_rstrip w_def)
    also have "\<dots> = py_join '' '' (w # py_split rest)"
      by (rule rstrip_word_collapse[OF wok rest ih])
    finally show ?thesis by (simp only: col sp)
  qed
qed

lemma canon_spec:
  "py_join '' '' (py_split (py_lower (py_strip v))) = spec_trim (collapse_ws (map py_lower_char v))"
proof -
  have "py_join '' '' (py_split (py_lower (py_strip v))) = py_join '' '' (map py_lower (py_split v))"
    by (rule canon_alt)
  also have "\<dots> = py_join '' '' (py_split (py_lower v))"
    by (simp only: split_lower)
  also have "\<dots> = spec_trim (collapse_ws (py_lower v))"
    by (simp only: trim_collapse)
  finally show ?thesis by (simp only: py_lower_def)
qed

lemma alias_values_fixed:
  "map_of COUNTRY_ALIASES k = Some v \<Longrightarrow> normalize_country_token v = v"
proof -
  assume "map_of COUNTRY_ALIASES k = Some v"
  then have "(k, v) \<in> set COUNTRY_ALIASES" by (rule map_of_SomeD)
  then have "v \<in> {''united kingdom'', ''united states'', ''turkey'', ''czechia''}"
    by (auto simp: COUNTRY_ALIASES_def)
  moreover have "normalize_country_token ''united kingdom'' = ''united kingdom''" by code_simp
  moreover have "normalize_country_token ''united states'' = ''united states''" by code_simp
  moreover have "normalize_country_token ''turkey'' = ''turkey''" by code_simp
  moreover have "normalize_country_token ''czechia'' = ''czechia''" by code_simp
  ultimately show ?thesis by auto
qed

lemma normalize_blank: "py_strip v = [] \<Longrightarrow> normalize_country_token v = []"
proof -
  assume b: "py_strip v = []"
  have s0: "py_strip [] = []" by (simp add: py_strip_def)
  have "normalize_country_token v = normalize_country_token []"
    unfolding normalize_country_token_def by (simp only: b s0)
  also have "\<dots> = []" by code_simp
  finally show ?thesis .
qed

lemma strip_Nil_iff: "py_strip s = [] \<longleftrightarrow> list_all py_isspace s"
proof
  assume "list_all py_isspace s"
  then have "dropWhile py_isspace s = []"
    by (simp add: list_all_iff)
  then show "py_strip s = []"
    by (simp only: py_strip_def rev.simps dropWhile.simps)
next
  assume "py_strip s = []"
  then have "dropWhile py_isspace (rev (dropWhile py_isspace s)) = []"
    by (simp only: py_strip_def rev_is_Nil_conv)
  then have a: "\<forall>x\<in>set (dropWhile py_isspace s). py_isspace x"
    by (simp only: dropWhile_eq_Nil_conv set_rev)
  have "dropWhile py_isspace s = []"
  proof (rule ccontr)
    assume ne: "dropWhile py_isspace s \<noteq> []"
    then have "\<not> py_isspace (hd (dropWhile py_isspace s))"
      by (rule hd_dropWhile)
    moreover from ne have "hd (dropWhile py_isspace s) \<in> set (dropWhile py_isspace s)"
      by (rule hd_in_set)
    ultimately show False using a by blast
  qed
  then show "list_all py_isspace s"
    by (simp add: list_all_iff)
qed

section \<open>The normalizer\<close>

text \<open>
  C5. \<open>normalize\<close> is a total function of its input string, the empty string included,
  and equals the reference definition of the specification: lower-case, collapse
  whitespace, trim, resolve through the alias table. So \<open>"  UK "\<close> and \<open>"uk"\<close>
  normalize alike, and so do \<open>"usa"\<close>, \<open>"united states"\<close> and \<open>"US"\<close>.
\<close>

theorem normalize_refines_spec:
  "normalize_country_token v = spec_normalize v
   \<and> normalize_country_token [] = []
   \<and> normalize_country_token ''  UK '' = normalize_country_token ''uk''
   \<and> normalize_country_token ''usa'' = normalize_country_token ''united states''
   \<and> normalize_country_token ''united states'' = normalize_country_token ''US''"
proof -
  have "normalize_country_token v = spec_normalize v"
    by (simp add: normalize_country_token_def spec_normalize_def spec_alias_resolve_def
        dict_get_default_def canon_spec Let_def)
  moreover have "normalize_country_token [] = []" by code_simp
  moreover have "normalize_country_token ''  UK '' = normalize_country_token ''uk''" by code_simp
  moreover have "normalize_country_token ''usa'' = normalize_country_token ''united states''" by code_simp
  moreover have "normalize_country_token ''united states'' = normalize_country_token ''US''" by code_simp
  ultimately show ?thesis by blast
qed

text \<open>
  C6. \<open>normalize\<close> is idempotent: normalizing a normalized token gives the same token.
\<close>

theorem normalize_idempotent:
  "normalize_country_token (normalize_country_token x) = normalize_country_token x"
proof -
  define k where "k = py_join '' '' (py_split (py_lower (py_strip x)))"
  have kk: "py_join '' '' (py_split (py_lower (py_strip k))) = k"
    unfolding k_def by (rule canon_idem)
  show ?thesis
  proof (cases "map_of COUNTRY_ALIASES k")
    case None
    then have "normalize_country_token x = k"
      by (simp add: normalize_country_token_def dict_get_default_def k_def)
    moreover from None kk have "normalize_country_token k = k"
      by (simp add: normalize_country_token_def dict_get_default_def)
    ultimately show ?thesis by simp
  next
    case (Some v)
    then have "normalize_country_token x = v"
      by (simp add: normalize_country_token_def dict_get_default_def k_def)
    with alias_values_fixed[OF Some] show ?thesis by simp
  qed
qed

text \<open>
  C7. \<open>isCountryLevel\<close> holds exactly when both strings are non-blank (not every
  character is whitespace) and normalize to the same token. It holds of
  \<open>"United Kingdom"\<close> and \<open>"UK"\<close>, not of \<open>"Manchester"\<close> and \<open>"UK"\<close>, and a
  blank location or a blank country token gives \<open>False\<close>, also when both are blank
  and so normalize alike.
\<close>

theorem is_country_level_iff:
  "(is_country_level_location loc country \<longleftrightarrow>
      \<not> list_all py_isspace loc \<and> \<not> list_all py_isspace country
      \<and> normalize_country_token loc = normalize_country_token country)
   \<and> is_country_level_location ''United Kingdom'' ''UK''
   \<and> \<not> is_country_level_location ''Manchester'' ''UK''
   \<and> \<not> is_country_level_location ''   '' ''UK''
   \<and> \<not> is_country_level_location ''UK'' []
   \<and> normalize_country_token ''   '' = normalize_country_token [CHR 0x09, CHR '' '']
   \<and> \<not> is_country_level_location ''   '' [CHR 0x09, CHR '' '']
   \<and> \<not> is_country_level_location [] []"
proof -
  have "is_country_level_location ''United Kingdom'' ''UK''" by code_simp
  moreover have "\<not> is_country_level_location ''Manchester'' ''UK''" by code_simp
  moreover have "\<not> is_country_level_location ''   '' ''UK''" by code_simp
  moreover have "\<not> is_country_level_location ''UK'' []" by code_simp
  moreover have "normalize_country_token ''   '' = normalize_country_token [CHR 0x09, CHR '' '']"
    by code_simp
  moreover have "\<not> is_country_level_location ''   '' [CHR 0x09, CHR '' '']" by code_simp
  moreover have "\<not> is_country_level_location [] []" by code_simp
  moreover have "is_country_level_location loc country \<longleftrightarrow>
      \<not> list_all py_isspace loc \<and> \<not> list_all py_isspace country
      \<and> normalize_country_token loc = normalize_country_token country"
    by (simp add: is_country_level_location_def strip_Nil_iff)
  ultimately show ?thesis by blast
qed

text \<open>
  C10. \<open>cityFallback\<close> looks at the location only when the country token is the empty
  string: a non-empty token gives the same answer for every location, and the empty
  token answers as the location would in its place. A country token of whitespace only
  counts as present, normalizes to the empty key and finds no city, whatever the
  location is, even a location whose country has a city in the table.
\<close>

theorem city_fallback_prefers_country:
  "(country \<noteq> [] \<longrightarrow>
      glassdoor_city_for_country country loc = glassdoor_city_for_country country loc')
   \<and> (loc \<noteq> [] \<longrightarrow>
      glassdoor_city_for_country [] loc = glassdoor_city_for_country loc loc')
   \<and> (country \<noteq> [] \<and> list_all py_isspace country \<longrightarrow>
        normalize_country_token country = []
        \<and> glassdoor_city_for_country country loc = None)
   \<and> glassdoor_city_for_country ''  '' ''united kingdom'' = None
   \<and> glassdoor_city_for_country [] ''united kingdom'' = Some ''London''
   \<and> glassdoor_city_for_country ''UK'' ''Manchester'' = Some ''London''
   \<and> glassdoor_city_for_country [] '' United   KINGDOM '' = Some ''London''
   \<and> glassdoor_city_for_country ''Atlantis'' ''united kingdom'' = None"
proof -
  have e: "dict_get GLASSDOOR_COUNTRY_TO_CITY [] = None" by code_simp
  have "country \<noteq> [] \<and> list_all py_isspace country \<longrightarrow>
        normalize_country_token country = []
        \<and> glassdoor_city_for_country country loc = None"
    by (simp add: glassdoor_city_for_country_def normalize_blank strip_Nil_iff[symmetric] e)
  moreover have "loc \<noteq> [] \<longrightarrow>
      glassdoor_city_for_country [] loc = glassdoor_city_for_country loc loc'"
    by (simp add: glassdoor_city_for_country_def)
  moreover have "glassdoor_city_for_country ''  '' ''united kingdom'' = None" by code_simp
  moreover have "glassdoor_city_for_country [] ''united kingdom'' = Some ''London''" by code_simp
  moreover have "glassdoor_city_for_country ''UK'' ''Manchester'' = Some ''London''" by code_simp
  moreover have "glassdoor_city_for_country [] '' United   KINGDOM '' = Some ''London''" by code_simp
  moreover have "glassdoor_city_for_country ''Atlantis'' ''united kingdom'' = None" by code_simp
  moreover have "country \<noteq> [] \<longrightarrow>
      glassdoor_city_for_country country loc = glassdoor_city_for_country country loc'"
    by (simp add: glassdoor_city_for_country_def)
  ultimately show ?thesis by blast
qed

theorem city_fallback_prefers_country_witness:
  "''  '' \<noteq> [] \<and> list_all py_isspace ''  ''
   \<and> normalize_country_token ''  '' = []
   \<and> glassdoor_city_for_country ''  '' ''germany'' = None
   \<and> ''germany'' \<noteq> []
   \<and> glassdoor_city_for_country ''germany'' ''Paris'' = Some ''Berlin''"
proof -
  have b: "list_all py_isspace ''  ''" by code_simp
  have n: "''  '' \<noteq> ([] :: string)" by simp
  have g: "''germany'' \<noteq> ([] :: string)" by simp
  have v: "glassdoor_city_for_country ''germany'' ''Berlin'' = Some ''Berlin''" by code_simp
  from city_fallback_prefers_country[of "''  ''" "''germany''"] n b
  have "normalize_country_token ''  '' = [] \<and> glassdoor_city_for_country ''  '' ''germany'' = None"
    by blast
  moreover from city_fallback_prefers_country[of "''germany''" "''Paris''" "''Berlin''"] g v
  have "glassdoor_city_for_country ''germany'' ''Paris'' = Some ''Berlin''" by simp
  ultimately show ?thesis using n b g by blast
qed

section \<open>Facts about a run\<close>

lemma emit_term_start:
  "emit_progress ''term_start''
     [(''termIndex'', JInt (cfg_term_index c)), (''termTotal'', JInt (cfg_term_total c)),
      (''searchTerm'', JStr (cfg_search_term c))]
   = ([Stdout (term_start_line c)], Inr ())"
  by (simp add: emit_progress_def print_def io_do_def term_start_line_def)

lemma emit_term_complete:
  "emit_progress ''term_complete''
     [(''termIndex'', JInt (cfg_term_index c)), (''termTotal'', JInt (cfg_term_total c)),
      (''searchTerm'', JStr (cfg_search_term c)), (''jobsFoundTerm'', JInt (int n))]
   = ([Stdout (term_complete_line c n)], Inr ())"
  by (simp add: emit_progress_def print_def io_do_def term_complete_line_def)

lemma run_shape:
  "run w c =
     (case scrape_non_glassdoor w c of
        (t1, Inl e) \<Rightarrow>
          ([MkdirParent (cfg_output_csv c), MkdirParent (cfg_output_json c),
            Stdout (''jobspy: Search term: '' @ cfg_search_term c),
            Stdout (term_start_line c)] @ t1, Inl e)
      | (t1, Inr frames1) \<Rightarrow>
          (case scrape_glassdoor w c of
             (t2, Inl e) \<Rightarrow>
               ([MkdirParent (cfg_output_csv c), MkdirParent (cfg_output_json c),
                 Stdout (''jobspy: Search term: '' @ cfg_search_term c),
                 Stdout (term_start_line c)] @ t1 @ t2, Inl e)
           | (t2, Inr frames2) \<Rightarrow>
               ([MkdirParent (cfg_output_csv c), MkdirParent (cfg_output_json c),
                 Stdout (''jobspy: Search term: '' @ cfg_search_term c),
                 Stdout (term_start_line c)] @ t1 @ t2 @
                [Stdout (''Found '' @ str_nat (length (concat (map rows (frames1 @ frames2)))) @ '' jobs''),
                 Stdout (term_complete_line c (length (concat (map rows (frames1 @ frames2))))),
                 ToCsv (cfg_output_csv c)
                   (remdups (concat (map columns (frames1 @ frames2))))
                   (concat (map rows (frames1 @ frames2))),
                 ToJson (cfg_output_json c) (concat (map rows (frames1 @ frames2))),
                 Stdout (''Wrote CSV:  '' @ cfg_output_csv c),
                 Stdout (''Wrote JSON: '' @ cfg_output_json c)], Inr 0)))"
  unfolding run_def emit_term_start
  by (simp add: io_then_def io_bind_def io_do_def io_return_def print_def Let_def
      emit_term_complete to_csv_def to_json_def pd_concat_def pd_DataFrame_def
      split: prod.splits sum.splits)

lemma scrape_for_sites_shape:
  "\<exists>kw. kw_site_name kw = ss
     \<and> kw_location kw = (if l \<noteq> [] \<and> py_strip l \<noteq> [] then Some l else None)
     \<and> scrape_for_sites w ss t (Some l) rw ho ci lfd ir
         = ([Scrape kw (scrape_jobs w kw)], scrape_jobs w kw)"
  by (simp add: scrape_for_sites_def Let_def)

lemma non_glassdoor_none:
  "filter (\<lambda>s. s \<noteq> ''glassdoor'') (cfg_sites c) = [] \<Longrightarrow> scrape_non_glassdoor w c = ([], Inr [])"
  by (simp add: scrape_non_glassdoor_def io_return_def)

lemma non_glassdoor_call:
  assumes "filter (\<lambda>s. s \<noteq> ''glassdoor'') (cfg_sites c) \<noteq> []"
  shows "\<exists>kw. kw_site_name kw = filter (\<lambda>s. s \<noteq> ''glassdoor'') (cfg_sites c)
     \<and> kw_location kw = (if cfg_location c \<noteq> [] \<and> py_strip (cfg_location c) \<noteq> []
                          then Some (cfg_location c) else None)
     \<and> scrape_non_glassdoor w c
         = ([Scrape kw (scrape_jobs w kw)],
            case scrape_jobs w kw of Inl e \<Rightarrow> Inl e | Inr df \<Rightarrow> Inr [df])"
proof -
  from scrape_for_sites_shape[of "filter (\<lambda>s. s \<noteq> ''glassdoor'') (cfg_sites c)" "cfg_location c" w
      "cfg_search_term c" "cfg_results_wanted c" "cfg_hours_old c" "cfg_country_indeed c"
      "cfg_linkedin_fetch_description c" "cfg_is_remote c"]
  obtain kw where kw: "kw_site_name kw = filter (\<lambda>s. s \<noteq> ''glassdoor'') (cfg_sites c)"
    "kw_location kw = (if cfg_location c \<noteq> [] \<and> py_strip (cfg_location c) \<noteq> []
                          then Some (cfg_location c) else None)"
    "scrape_for_sites w (filter (\<lambda>s. s \<noteq> ''glassdoor'') (cfg_sites c)) (cfg_search_term c)
       (Some (cfg_location c)) (cfg_results_wanted c) (cfg_hours_old c) (cfg_country_indeed c)
       (cfg_linkedin_fetch_description c) (cfg_is_remote c)
      = ([Scrape kw (scrape_jobs w kw)], scrape_jobs w kw)"
    by blast
  from assms kw(3) have "scrape_non_glassdoor w c
         = ([Scrape kw (scrape_jobs w kw)],
            case scrape_jobs w kw of Inl e \<Rightarrow> Inl e | Inr df \<Rightarrow> Inr [df])"
    by (simp add: scrape_non_glassdoor_def io_bind_def io_return_def Let_def split: sum.splits)
  with kw(1,2) show ?thesis by blast
qed

lemma city_values_ok:
  "list_all (\<lambda>(k, v). v \<noteq> [] \<and> py_strip v \<noteq> []) GLASSDOOR_COUNTRY_TO_CITY"
  by code_simp

lemma city_nonblank:
  assumes "glassdoor_city_for_country a b = Some city"
  shows "city \<noteq> [] \<and> py_strip city \<noteq> []"
proof -
  from assms obtain k where "map_of GLASSDOOR_COUNTRY_TO_CITY k = Some city"
    by (auto simp: glassdoor_city_for_country_def dict_get_def Let_def)
  then have "(k, city) \<in> set GLASSDOOR_COUNTRY_TO_CITY" by (rule map_of_SomeD)
  with city_values_ok show ?thesis
    by (auto simp: list_all_iff)
qed

lemma not_progress_j: "\<not> is_progress (Stdout (CHR ''j'' # x))"
  by (simp add: PROGRESS_PREFIX_def)

lemma choose_location_shape:
  "\<exists>msgs. list_all (\<lambda>m. \<not> is_progress (Stdout m :: 'a effect)) msgs
     \<and> (choose_glassdoor_location c :: ('a, string) io)
         = (map Stdout msgs, Inr (spec_effective_location (cfg_location c) (cfg_country_indeed c)))"
proof (cases "is_country_level_location (cfg_location c) (cfg_country_indeed c)")
  case False
  then have "(choose_glassdoor_location c :: ('a, string) io)
      = (map Stdout [], Inr (spec_effective_location (cfg_location c) (cfg_country_indeed c)))"
    by (simp add: choose_glassdoor_location_def spec_effective_location_def io_return_def)
  moreover have "list_all (\<lambda>m. \<not> is_progress (Stdout m :: 'a effect)) []" by simp
  ultimately show ?thesis by blast
next
  case True
  show ?thesis
  proof (cases "glassdoor_city_for_country (cfg_country_indeed c) (cfg_location c)")
    case None
    with True have "(choose_glassdoor_location c :: ('a, string) io)
      = (map Stdout [''jobspy: Glassdoor location matched country; keeping original location''],
         Inr (spec_effective_location (cfg_location c) (cfg_country_indeed c)))"
      by (simp add: choose_glassdoor_location_def spec_effective_location_def io_return_def
          io_then_def io_bind_def print_def io_do_def)
    moreover have "list_all (\<lambda>m. \<not> is_progress (Stdout m :: 'a effect))
        [''jobspy: Glassdoor location matched country; keeping original location'']"
      by (simp add: not_progress_j del: is_progress.simps)
    ultimately show ?thesis by blast
  next
    case (Some city)
    with city_nonblank have ne: "city \<noteq> []" by blast
    with True Some have "(choose_glassdoor_location c :: ('a, string) io)
      = (map Stdout [''jobspy: Glassdoor location matched country; using city fallback ('' @ city @ '')''],
         Inr (spec_effective_location (cfg_location c) (cfg_country_indeed c)))"
      by (simp add: choose_glassdoor_location_def spec_effective_location_def io_return_def
          io_then_def io_bind_def print_def io_do_def)
    moreover have "list_all (\<lambda>m. \<not> is_progress (Stdout m :: 'a effect))
        [''jobspy: Glassdoor location matched country; using city fallback ('' @ city @ '')'']"
      by (simp add: not_progress_j del: is_progress.simps)
    ultimately show ?thesis by blast
  qed
qed

lemma glassdoor_none:
  "''glassdoor'' \<notin> set (cfg_sites c) \<Longrightarrow> scrape_glassdoor w c = ([], Inr [])"
  by (simp add: scrape_glassdoor_def io_return_def)

lemma glassdoor_call:
  assumes "''glassdoor'' \<in> set (cfg_sites c)"
  shows "\<exists>msgs kw. list_all (\<lambda>m. \<not> is_progress (Stdout m :: 'a effect)) msgs
     \<and> kw_site_name kw = [''glassdoor'']
     \<and> kw_location kw =
         (let l = spec_effective_location (cfg_location c) (cfg_country_indeed c)
          in if l \<noteq> [] \<and> py_strip l \<noteq> [] then Some l else None)
     \<and> scrape_glassdoor (w :: 'a world) c
         = (map Stdout msgs @ [Scrape kw (scrape_jobs w kw)],
            case scrape_jobs w kw of Inl e \<Rightarrow> Inl e | Inr df \<Rightarrow> Inr [df])"
proof -
  define l where "l = spec_effective_location (cfg_location c) (cfg_country_indeed c)"
  from choose_location_shape[of c] obtain msgs :: "string list"
    where m: "list_all (\<lambda>m. \<not> is_progress (Stdout m :: 'a effect)) msgs"
      "(choose_glassdoor_location c :: ('a, string) io) = (map Stdout msgs, Inr l)"
    unfolding l_def by blast
  from scrape_for_sites_shape[of "[''glassdoor'']" l w
      "cfg_search_term c" "cfg_results_wanted c" "cfg_hours_old c" "cfg_country_indeed c"
      "cfg_linkedin_fetch_description c" "cfg_is_remote c"]
  obtain kw where kw: "kw_site_name kw = [''glassdoor'']"
    "kw_location kw = (if l \<noteq> [] \<and> py_strip l \<noteq> [] then Some l else None)"
    "scrape_for_sites w [''glassdoor''] (cfg_search_term c)
       (Some l) (cfg_results_wanted c) (cfg_hours_old c) (cfg_country_indeed c)
       (cfg_linkedin_fetch_description c) (cfg_is_remote c)
      = ([Scrape kw (scrape_jobs w kw)], scrape_jobs w kw)"
    by blast
  from assms m(2) kw(3) have "scrape_glassdoor w c
         = (map Stdout msgs @ [Scrape kw (scrape_jobs w kw)],
            case scrape_jobs w kw of Inl e \<Rightarrow> Inl e | Inr df \<Rightarrow> Inr [df])"
    by (simp add: scrape_glassdoor_def io_bind_def io_return_def split: sum.splits)
  with m(1) kw(1,2) show ?thesis unfolding l_def Let_def by blast
qed

lemma scrape_calls_append: "scrape_calls (a @ b) = scrape_calls a @ scrape_calls b"
  by (induction a rule: scrape_calls.induct) simp_all

lemma fetched_append: "fetched (a @ b) = fetched a @ fetched b"
  by (induction a rule: fetched.induct) simp_all

lemma csv_batches_append: "csv_batches (a @ b) = csv_batches a @ csv_batches b"
  by (induction a rule: csv_batches.induct) simp_all

lemma json_batches_append: "json_batches (a @ b) = json_batches a @ json_batches b"
  by (induction a rule: json_batches.induct) simp_all

lemma stdout_obs:
  "scrape_calls (map Stdout msgs) = []"
  "fetched (map Stdout msgs) = []"
  "csv_batches (map Stdout msgs) = []"
  "json_batches (map Stdout msgs) = []"
  "list_all fetch_is_empty (map Stdout msgs)"
  "\<not> list_ex is_scrape (map Stdout msgs)"
  by (induction msgs) simp_all

lemma not_progress_other:
  "\<not> is_progress (Scrape kw r)" "\<not> is_progress (MkdirParent p)"
  "\<not> is_progress (ToCsv p h rs)" "\<not> is_progress (ToJson p rs)"
  by simp_all

lemma stdout_not_progress:
  "list_all (\<lambda>m. \<not> is_progress (Stdout m :: 'a effect)) msgs
   \<Longrightarrow> filter is_progress (map Stdout msgs :: 'a effect list) = []"
  by (induction msgs) (simp_all del: is_progress.simps)

lemma generic_not_city: "filter (\<lambda>s. s \<noteq> ''glassdoor'') ss \<noteq> [''glassdoor'']"
proof
  assume "filter (\<lambda>s. s \<noteq> ''glassdoor'') ss = [''glassdoor'']"
  then have "''glassdoor'' \<in> set (filter (\<lambda>s. s \<noteq> ''glassdoor'') ss)" by simp
  then show False by simp
qed

text \<open>What the trace of each stage shows.\<close>

lemma stage1_obs:
  assumes "scrape_non_glassdoor (w :: 'a world) c = (t1, r1)"
  shows "map kw_site_name (scrape_calls t1)
           = filter (\<lambda>g. g \<noteq> []) [spec_generic_group (cfg_sites c)]
    \<and> list_all (\<lambda>kw. kw_site_name kw \<noteq> [''glassdoor'']
           \<and> kw_location kw = (if cfg_location c \<noteq> [] \<and> py_strip (cfg_location c) \<noteq> []
                                then Some (cfg_location c) else None)) (scrape_calls t1)
    \<and> filter is_progress t1 = []
    \<and> csv_batches t1 = [] \<and> json_batches t1 = []
    \<and> (r1 = Inr fs \<longrightarrow> fetched t1 = fs)
    \<and> (r1 = Inl e \<longrightarrow> \<not> list_all fetch_is_empty t1)"
proof (cases "filter (\<lambda>s. s \<noteq> ''glassdoor'') (cfg_sites c) = []")
  case True
  with assms non_glassdoor_none[of c w] have "t1 = []" "r1 = Inr []" by simp_all
  with True show ?thesis by (simp add: spec_generic_group_def)
next
  case False
  let ?G = "filter (\<lambda>s. s \<noteq> ''glassdoor'') (cfg_sites c)"
  from non_glassdoor_call[OF False, of w] obtain kw where
    kw: "kw_site_name kw = ?G"
      "kw_location kw = (if cfg_location c \<noteq> [] \<and> py_strip (cfg_location c) \<noteq> []
                        then Some (cfg_location c) else None)"
      "scrape_non_glassdoor w c = ([Scrape kw (scrape_jobs w kw)],
          case scrape_jobs w kw of Inl e \<Rightarrow> Inl e | Inr df \<Rightarrow> Inr [df])"
    by blast
  with assms have t: "t1 = [Scrape kw (scrape_jobs w kw)]"
    and r: "r1 = (case scrape_jobs w kw of Inl e \<Rightarrow> Inl e | Inr df \<Rightarrow> Inr [df])"
    by simp_all
  show ?thesis
    using False kw(1,2) generic_not_city[of "cfg_sites c"]
    by (cases "scrape_jobs w kw") (auto simp: t r spec_generic_group_def)
qed

lemma stage2_obs:
  assumes "scrape_glassdoor (w :: 'a world) c = (t2, r2)"
  shows "map kw_site_name (scrape_calls t2)
           = filter (\<lambda>g. g \<noteq> []) [spec_city_group (cfg_sites c)]
    \<and> list_all (\<lambda>kw. kw_site_name kw = [''glassdoor'']
           \<and> kw_location kw =
               (let l = spec_effective_location (cfg_location c) (cfg_country_indeed c)
                in if l \<noteq> [] \<and> py_strip l \<noteq> [] then Some l else None)) (scrape_calls t2)
    \<and> filter is_progress t2 = []
    \<and> csv_batches t2 = [] \<and> json_batches t2 = []
    \<and> (r2 = Inr fs \<longrightarrow> fetched t2 = fs)
    \<and> (r2 = Inl e \<longrightarrow> \<not> list_all fetch_is_empty t2)"
proof (cases "''glassdoor'' \<in> set (cfg_sites c)")
  case False
  with assms glassdoor_none[of c w] have "t2 = []" "r2 = Inr []" by simp_all
  with False show ?thesis by (simp add: spec_city_group_def)
next
  case True
  from glassdoor_call[OF True, of w] obtain msgs kw where
    m: "list_all (\<lambda>m. \<not> is_progress (Stdout m :: 'a effect)) msgs"
    and kw: "kw_site_name kw = [''glassdoor'']"
      "kw_location kw =
         (let l = spec_effective_location (cfg_location c) (cfg_country_indeed c)
          in if l \<noteq> [] \<and> py_strip l \<noteq> [] then Some l else None)"
    and eq: "scrape_glassdoor w c = (map Stdout msgs @ [Scrape kw (scrape_jobs w kw)],
          case scrape_jobs w kw of Inl e \<Rightarrow> Inl e | Inr df \<Rightarrow> Inr [df])"
    by blast
  from assms eq have t: "t2 = map Stdout msgs @ [Scrape kw (scrape_jobs w kw)]"
    and r: "r2 = (case scrape_jobs w kw of Inl e \<Rightarrow> Inl e | Inr df \<Rightarrow> Inr [df])"
    by simp_all
  note np = stdout_not_progress[OF m]
  show ?thesis
    using True kw
    by (cases "scrape_jobs w kw")
       (simp_all add: t r spec_city_group_def scrape_calls_append fetched_append
          csv_batches_append json_batches_append stdout_obs np not_progress_other
          del: is_progress.simps)
qed

lemma empty_fetches: "list_all fetch_is_empty t \<Longrightarrow> concat (map rows (fetched t)) = []"
  by (induction t rule: fetched.induct) simp_all

lemma run_obs:
  fixes w :: "'a world"
  assumes s1: "scrape_non_glassdoor w c = (t1, r1)" and s2: "scrape_glassdoor w c = (t2, r2)"
  shows "(\<forall>e. r1 = Inl e \<longrightarrow>
            run w c = ([MkdirParent (cfg_output_csv c), MkdirParent (cfg_output_json c),
                        Stdout (''jobspy: Search term: '' @ cfg_search_term c),
                        Stdout (term_start_line c)] @ t1, Inl e))
    \<and> (\<forall>fs1 e. r1 = Inr fs1 \<and> r2 = Inl e \<longrightarrow>
            run w c = ([MkdirParent (cfg_output_csv c), MkdirParent (cfg_output_json c),
                        Stdout (''jobspy: Search term: '' @ cfg_search_term c),
                        Stdout (term_start_line c)] @ t1 @ t2, Inl e))
    \<and> (\<forall>fs1 fs2. r1 = Inr fs1 \<and> r2 = Inr fs2 \<longrightarrow>
            run w c = ([MkdirParent (cfg_output_csv c), MkdirParent (cfg_output_json c),
                 Stdout (''jobspy: Search term: '' @ cfg_search_term c),
                 Stdout (term_start_line c)] @ t1 @ t2 @
                [Stdout (''Found '' @ str_nat (length (concat (map rows (fs1 @ fs2)))) @ '' jobs''),
                 Stdout (term_complete_line c (length (concat (map rows (fs1 @ fs2))))),
                 ToCsv (cfg_output_csv c)
                   (remdups (concat (map columns (fs1 @ fs2))))
                   (concat (map rows (fs1 @ fs2))),
                 ToJson (cfg_output_json c) (concat (map rows (fs1 @ fs2))),
                 Stdout (''Wrote CSV:  '' @ cfg_output_csv c),
                 Stdout (''Wrote JSON: '' @ cfg_output_json c)], Inr 0))"
  by (simp add: run_shape s1 s2)

section \<open>The aggregator\<close>

text \<open>
  C1. In every run the batch that is written is the concatenation of the frames the
  groups returned, in the order the groups were fetched, so its size is the sum of their
  sizes. When every fetch that was made returned nothing, and so also when none was
  made, the run succeeds with the empty batch.
\<close>

theorem aggregation_is_concatenation:
  fixes w :: "'a world"
  shows "(snd (run w c) = Inr rc \<longrightarrow>
            rc = 0
          \<and> csv_batches (fst (run w c)) = [concat (map rows (fetched (fst (run w c))))]
          \<and> json_batches (fst (run w c)) = [concat (map rows (fetched (fst (run w c))))]
          \<and> length (concat (csv_batches (fst (run w c))))
              = sum_list (map (\<lambda>df. length (rows df)) (fetched (fst (run w c)))))
       \<and> (list_all fetch_is_empty (fst (run w c)) \<longrightarrow>
            snd (run w c) = Inr 0
          \<and> csv_batches (fst (run w c)) = [[]]
          \<and> json_batches (fst (run w c)) = [[]])"
proof -
  obtain t1 r1 where s1: "scrape_non_glassdoor w c = (t1, r1)" by (cases "scrape_non_glassdoor w c")
  obtain t2 r2 where s2: "scrape_glassdoor w c = (t2, r2)" by (cases "scrape_glassdoor w c")
  note ro = run_obs[OF s1 s2]
  have len: "length (concat (map rows fs)) = sum_list (map (\<lambda>df. length (rows df)) fs)"
    for fs :: "'a frame list"
    by (simp add: length_concat comp_def)
  show ?thesis
  proof (cases r1)
    case (Inl e)
    with ro have r: "run w c = ([MkdirParent (cfg_output_csv c), MkdirParent (cfg_output_json c),
                        Stdout (''jobspy: Search term: '' @ cfg_search_term c),
                        Stdout (term_start_line c)] @ t1, Inl e)" by blast
    from stage1_obs[OF s1, of undefined e] Inl have "\<not> list_all fetch_is_empty t1" by blast
    with r show ?thesis by simp
  next
    case i1: (Inr fs1)
    from stage1_obs[OF s1, of fs1] i1 have o1: "fetched t1 = fs1" "csv_batches t1 = []" "json_batches t1 = []"
      by blast+
    show ?thesis
    proof (cases r2)
      case (Inl e)
      with ro i1 have r: "run w c = ([MkdirParent (cfg_output_csv c), MkdirParent (cfg_output_json c),
                        Stdout (''jobspy: Search term: '' @ cfg_search_term c),
                        Stdout (term_start_line c)] @ t1 @ t2, Inl e)" by blast
      from stage2_obs[OF s2, of undefined e] Inl have "\<not> list_all fetch_is_empty t2" by blast
      with r show ?thesis by simp
    next
      case i2: (Inr fs2)
      from stage2_obs[OF s2, of fs2] i2 have o2: "fetched t2 = fs2" "csv_batches t2 = []" "json_batches t2 = []"
        by blast+
      from ro i1 i2 have r: "run w c = ([MkdirParent (cfg_output_csv c), MkdirParent (cfg_output_json c),
                 Stdout (''jobspy: Search term: '' @ cfg_search_term c),
                 Stdout (term_start_line c)] @ t1 @ t2 @
                [Stdout (''Found '' @ str_nat (length (concat (map rows (fs1 @ fs2)))) @ '' jobs''),
                 Stdout (term_complete_line c (length (concat (map rows (fs1 @ fs2))))),
                 ToCsv (cfg_output_csv c)
                   (remdups (concat (map columns (fs1 @ fs2))))
                   (concat (map rows (fs1 @ fs2))),
                 ToJson (cfg_output_json c) (concat (map rows (fs1 @ fs2))),
                 Stdout (''Wrote CSV:  '' @ cfg_output_csv c),
                 Stdout (''Wrote JSON: '' @ cfg_output_json c)], Inr 0)" by blast
      have f: "fetched (fst (run w c)) = fs1 @ fs2"
        by (simp add: r fetched_append o1 o2)
      have cb: "csv_batches (fst (run w c)) = [concat (map rows (fs1 @ fs2))]"
        by (simp add: r csv_batches_append o1 o2)
      have jb: "json_batches (fst (run w c)) = [concat (map rows (fs1 @ fs2))]"
        by (simp add: r json_batches_append o1 o2)
      have e: "list_all fetch_is_empty (fst (run w c)) \<longrightarrow> concat (map rows (fs1 @ fs2)) = []"
        using empty_fetches[of "fst (run w c)"] f by simp
      have s: "snd (run w c) = Inr 0" by (simp add: r)
      show ?thesis
        unfolding f cb jb s using e len[of "fs1 @ fs2"] by simp
    qed
  qed
qed

theorem aggregation_is_concatenation_witness:
  "snd (main uk_world) = Inr 0
   \<and> map rows (fetched (fst (main uk_world))) = [[3], [1, 2]]
   \<and> csv_batches (fst (main uk_world)) = [[3, 1, 2]]
   \<and> json_batches (fst (main uk_world)) = [[3, 1, 2]]
   \<and> length (concat (csv_batches (fst (main uk_world)))) = 3
   \<and> list_all fetch_is_empty (fst (main quiet_world))
   \<and> snd (main quiet_world) = Inr 0
   \<and> csv_batches (fst (main quiet_world)) = [[]]
   \<and> json_batches (fst (main quiet_world)) = [[]]"
proof -
  let ?c = "projr (read_config uk_world)"
  let ?q = "projr (read_config quiet_world)"
  have m: "main uk_world = run uk_world ?c" by code_simp
  have mq: "main quiet_world = run quiet_world ?q" by code_simp
  have h: "snd (run uk_world ?c) = Inr 0" by code_simp
  have f: "map rows (fetched (fst (run uk_world ?c))) = [[3], [1, 2]]" by code_simp
  have q: "list_all fetch_is_empty (fst (run quiet_world ?q))" by code_simp
  from aggregation_is_concatenation[of uk_world ?c 0] h
  have "csv_batches (fst (run uk_world ?c))
        = [concat (map rows (fetched (fst (run uk_world ?c))))]"
    and "json_batches (fst (run uk_world ?c))
        = [concat (map rows (fetched (fst (run uk_world ?c))))]"
    by blast+
  with f have b: "csv_batches (fst (run uk_world ?c)) = [[3, 1, 2]]"
    "json_batches (fst (run uk_world ?c)) = [[3, 1, 2]]"
    by simp_all
  from aggregation_is_concatenation[of quiet_world ?q 0] q
  have e: "snd (run quiet_world ?q) = Inr 0
        \<and> csv_batches (fst (run quiet_world ?q)) = [[]]
        \<and> json_batches (fst (run quiet_world ?q)) = [[]]"
    by blast
  from h f b q e show ?thesis unfolding m mq by simp
qed

section \<open>The site dispatcher\<close>

lemma groups_split:
  "filter (\<lambda>g. g \<noteq> []) [a, b] = filter (\<lambda>g. g \<noteq> []) [a] @ filter (\<lambda>g. g \<noteq> []) [b]"
  by simp

text \<open>
  C2. Every requested site list is split into the generic group (every requested site
  other than the city-granularity site) and the city-granularity group (that site, when
  it was requested). The two are disjoint, together they are the requested set, and the
  fetches of a run are made for the non-empty groups in this order, the
  city-granularity group last, wherever its site stands in the list.
\<close>

theorem dispatch_partitions_sites:
  fixes w :: "'a world"
  shows "set (spec_generic_group (cfg_sites c)) \<inter> set (spec_city_group (cfg_sites c)) = {}
   \<and> set (spec_generic_group (cfg_sites c)) \<union> set (spec_city_group (cfg_sites c))
       = set (cfg_sites c)
   \<and> map kw_site_name (scrape_calls (fst (run w c)))
       = take (length (scrape_calls (fst (run w c))))
           (filter (\<lambda>g. g \<noteq> [])
              [spec_generic_group (cfg_sites c), spec_city_group (cfg_sites c)])
   \<and> (snd (run w c) = Inr rc \<longrightarrow>
        map kw_site_name (scrape_calls (fst (run w c)))
          = filter (\<lambda>g. g \<noteq> [])
              [spec_generic_group (cfg_sites c), spec_city_group (cfg_sites c)])
   \<and> parse_sites ''glassdoor, indeed,linkedin'' = [''glassdoor'', ''indeed'', ''linkedin'']
   \<and> map kw_site_name (scrape_calls (fst (main glassdoor_first_world)))
       = [[''indeed'', ''linkedin''], [''glassdoor'']]"
proof -
  obtain t1 r1 where s1: "scrape_non_glassdoor w c = (t1, r1)" by (cases "scrape_non_glassdoor w c")
  obtain t2 r2 where s2: "scrape_glassdoor w c = (t2, r2)" by (cases "scrape_glassdoor w c")
  note ro = run_obs[OF s1 s2]
  let ?g = "filter (\<lambda>g. g \<noteq> []) [spec_generic_group (cfg_sites c)]"
  let ?c = "filter (\<lambda>g. g \<noteq> []) [spec_city_group (cfg_sites c)]"
  from stage1_obs[OF s1] have c1: "map kw_site_name (scrape_calls t1) = ?g" by blast
  from stage2_obs[OF s2] have c2: "map kw_site_name (scrape_calls t2) = ?c" by blast
  have l1: "length (scrape_calls t1) = length ?g"
    using c1 by (metis length_map)
  have l2: "length (scrape_calls t2) = length ?c"
    using c2 by (metis length_map)
  have sets: "set (spec_generic_group (cfg_sites c)) \<inter> set (spec_city_group (cfg_sites c)) = {}
   \<and> set (spec_generic_group (cfg_sites c)) \<union> set (spec_city_group (cfg_sites c))
       = set (cfg_sites c)"
    by (auto simp: spec_generic_group_def spec_city_group_def)
  have ex1: "parse_sites ''glassdoor, indeed,linkedin'' = [''glassdoor'', ''indeed'', ''linkedin'']"
    by code_simp
  have ex2: "map kw_site_name (scrape_calls (fst (main glassdoor_first_world)))
       = [[''indeed'', ''linkedin''], [''glassdoor'']]"
    by code_simp
  have gen: "map kw_site_name (scrape_calls (fst (run w c)))
       = take (length (scrape_calls (fst (run w c)))) (?g @ ?c)
   \<and> (snd (run w c) = Inr rc \<longrightarrow>
        map kw_site_name (scrape_calls (fst (run w c))) = ?g @ ?c)"
  proof (cases r1)
    case (Inl e)
    with ro have r: "run w c = ([MkdirParent (cfg_output_csv c), MkdirParent (cfg_output_json c),
                        Stdout (''jobspy: Search term: '' @ cfg_search_term c),
                        Stdout (term_start_line c)] @ t1, Inl e)" by blast
    show ?thesis by (simp add: r scrape_calls_append c1 l1)
  next
    case i1: (Inr fs1)
    show ?thesis
    proof (cases r2)
      case (Inl e)
      with ro i1 have r: "run w c = ([MkdirParent (cfg_output_csv c), MkdirParent (cfg_output_json c),
                        Stdout (''jobspy: Search term: '' @ cfg_search_term c),
                        Stdout (term_start_line c)] @ t1 @ t2, Inl e)" by blast
      show ?thesis by (simp add: r scrape_calls_append c1 c2 l1 l2)
    next
      case i2: (Inr fs2)
      from ro i1 i2 have r: "run w c = ([MkdirParent (cfg_output_csv c), MkdirParent (cfg_output_json c),
                 Stdout (''jobspy: Search term: '' @ cfg_search_term c),
                 Stdout (term_start_line c)] @ t1 @ t2 @
                [Stdout (''Found '' @ str_nat (length (concat (map rows (fs1 @ fs2)))) @ '' jobs''),
                 Stdout (term_complete_line c (length (concat (map rows (fs1 @ fs2))))),
                 ToCsv (cfg_output_csv c)
                   (remdups (concat (map columns (fs1 @ fs2))))
                   (concat (map rows (fs1 @ fs2))),
                 ToJson (cfg_output_json c) (concat (map rows (fs1 @ fs2))),
                 Stdout (''Wrote CSV:  '' @ cfg_output_csv c),
                 Stdout (''Wrote JSON: '' @ cfg_output_json c)], Inr 0)" by blast
      show ?thesis by (simp add: r scrape_calls_append c1 c2 l1 l2)
    qed
  qed
  show ?thesis
    unfolding groups_split[of "spec_generic_group (cfg_sites c)" "spec_city_group (cfg_sites c)"]
    using sets gen ex1 ex2 by blast
qed

theorem dispatch_partitions_sites_witness:
  "snd (main uk_world) = Inr 0
   \<and> map_sum id cfg_sites (read_config uk_world) = Inr [''indeed'', ''glassdoor'']
   \<and> map kw_site_name (scrape_calls (fst (main uk_world))) = [[''indeed''], [''glassdoor'']]"
proof -
  let ?c = "projr (read_config uk_world)"
  have m: "main uk_world = run uk_world ?c" by code_simp
  have h: "snd (run uk_world ?c) = Inr 0" by code_simp
  have s: "cfg_sites ?c = [''indeed'', ''glassdoor'']" by code_simp
  have s': "map_sum id cfg_sites (read_config uk_world) = Inr [''indeed'', ''glassdoor'']"
    by code_simp
  from dispatch_partitions_sites[of ?c uk_world 0] h
  have "map kw_site_name (scrape_calls (fst (run uk_world ?c)))
          = filter (\<lambda>g. g \<noteq> [])
              [spec_generic_group (cfg_sites ?c), spec_city_group (cfg_sites ?c)]"
    by blast
  then have "map kw_site_name (scrape_calls (fst (run uk_world ?c)))
        = [[''indeed''], [''glassdoor'']]"
    by (simp add: s spec_generic_group_def spec_city_group_def)
  with h s' show ?thesis unfolding m by simp
qed

section \<open>The location of the city-granularity group\<close>

lemma env_str_nonblank:
  assumes "dflt \<noteq> []" "py_strip dflt \<noteq> []"
  shows "env_str env name dflt \<noteq> [] \<and> py_strip (env_str env name dflt) \<noteq> []"
  using assms by (simp add: env_str_def split: option.splits)

lemma uk_nonblank: "''UK'' \<noteq> [] \<and> py_strip ''UK'' \<noteq> []"
  by code_simp

lemma config_location_nonblank:
  "read_config w = Inr c \<Longrightarrow> cfg_location c \<noteq> [] \<and> py_strip (cfg_location c) \<noteq> []"
  using env_str_nonblank[of "''UK''" "getenv w" "''JOBSPY_LOCATION''"] uk_nonblank
  by (auto simp: read_config_def Let_def split: sum.splits)

lemma effective_location_nonblank:
  assumes "loc \<noteq> []" "py_strip loc \<noteq> []"
  shows "spec_effective_location loc country \<noteq> []
         \<and> py_strip (spec_effective_location loc country) \<noteq> []"
proof (cases "is_country_level_location loc country")
  case False
  with assms show ?thesis by (simp add: spec_effective_location_def)
next
  case True
  show ?thesis
  proof (cases "glassdoor_city_for_country country loc")
    case None
    with True assms show ?thesis by (simp add: spec_effective_location_def)
  next
    case (Some city)
    with True city_nonblank[OF Some] show ?thesis by (simp add: spec_effective_location_def)
  qed
qed

text \<open>
  C3. The location the city-granularity (glassdoor) fetch is made with is the fallback
  city when the location is country-level and the city table has the country, and the
  location as given otherwise, that is when the location is country-level without a
  city in the table and when it is not country-level. The generic fetch is always made
  with the location as given. With location \<open>"United Kingdom"\<close> and country
  \<open>"UK"\<close> the glassdoor fetch asks for \<open>"London"\<close> and the generic fetch for
  \<open>"United Kingdom"\<close>.
\<close>

theorem glassdoor_location_rule:
  fixes w :: "'a world"
  shows "snd (choose_glassdoor_location c :: ('a, string) io)
           = Inr (spec_effective_location (cfg_location c) (cfg_country_indeed c))
   \<and> (read_config w = Inr c \<longrightarrow>
        list_all
           (\<lambda>kw. kw_location kw =
                    Some (if kw_site_name kw = [''glassdoor'']
                          then spec_effective_location (cfg_location c) (cfg_country_indeed c)
                          else cfg_location c))
           (scrape_calls (fst (main w)))
      \<and> (''glassdoor'' \<in> set (cfg_sites c) \<and> snd (main w) = Inr rc \<longrightarrow>
           list_ex (\<lambda>kw. kw_site_name kw = [''glassdoor'']) (scrape_calls (fst (main w)))))
   \<and> map (\<lambda>kw. (kw_site_name kw, kw_location kw)) (scrape_calls (fst (main uk_world)))
        = [([''indeed''], Some ''United Kingdom''), ([''glassdoor''], Some ''London'')]
   \<and> map (\<lambda>kw. (kw_site_name kw, kw_location kw)) (scrape_calls (fst (main glassdoor_first_world)))
        = [([''indeed'', ''linkedin''], Some ''Manchester''), ([''glassdoor''], Some ''Manchester'')]
   \<and> map (\<lambda>kw. (kw_site_name kw, kw_location kw)) (scrape_calls (fst (main unmapped_country_world)))
        = [([''glassdoor''], Some ''Portugal'')]"
proof -
  obtain t1 r1 where s1: "scrape_non_glassdoor w c = (t1, r1)" by (cases "scrape_non_glassdoor w c")
  obtain t2 r2 where s2: "scrape_glassdoor w c = (t2, r2)" by (cases "scrape_glassdoor w c")
  note ro = run_obs[OF s1 s2]
  note enb = effective_location_nonblank[of "cfg_location c" "cfg_country_indeed c"]
  let ?P = "\<lambda>kw. kw_location kw =
                    Some (if kw_site_name kw = [''glassdoor'']
                          then spec_effective_location (cfg_location c) (cfg_country_indeed c)
                          else cfg_location c)"
  have p1: "list_all ?P (scrape_calls t1)" if rc: "read_config w = Inr c"
    using stage1_obs[OF s1] config_location_nonblank[OF rc]
    by (auto simp: list_all_iff)
  have p2: "list_all ?P (scrape_calls t2)" if rc: "read_config w = Inr c"
    using stage2_obs[OF s2] config_location_nonblank[OF rc] enb
    by (auto simp: list_all_iff Let_def)
  from stage2_obs[OF s2] have c2: "map kw_site_name (scrape_calls t2)
           = filter (\<lambda>g. g \<noteq> []) [spec_city_group (cfg_sites c)]" by blast
  have e2: "''glassdoor'' \<in> set (cfg_sites c)
      \<Longrightarrow> list_ex (\<lambda>kw. kw_site_name kw = [''glassdoor'']) (scrape_calls t2)"
  proof -
    assume "''glassdoor'' \<in> set (cfg_sites c)"
    with c2 have "map kw_site_name (scrape_calls t2) = [[''glassdoor'']]"
      by (simp add: spec_city_group_def)
    then show ?thesis by (cases "scrape_calls t2") auto
  qed
  have gen: "list_all ?P (scrape_calls (fst (run w c)))
     \<and> (''glassdoor'' \<in> set (cfg_sites c) \<and> snd (run w c) = Inr rc \<longrightarrow>
        list_ex (\<lambda>kw. kw_site_name kw = [''glassdoor'']) (scrape_calls (fst (run w c))))"
    if rd: "read_config w = Inr c"
  proof (cases r1)
    case (Inl e)
    with ro have r: "run w c = ([MkdirParent (cfg_output_csv c), MkdirParent (cfg_output_json c),
                        Stdout (''jobspy: Search term: '' @ cfg_search_term c),
                        Stdout (term_start_line c)] @ t1, Inl e)" by blast
    show ?thesis using p1[OF rd] by (simp add: r scrape_calls_append)
  next
    case i1: (Inr fs1)
    show ?thesis
    proof (cases r2)
      case (Inl e)
      with ro i1 have r: "run w c = ([MkdirParent (cfg_output_csv c), MkdirParent (cfg_output_json c),
                        Stdout (''jobspy: Search term: '' @ cfg_search_term c),
                        Stdout (term_start_line c)] @ t1 @ t2, Inl e)" by blast
      show ?thesis using p1[OF rd] p2[OF rd] by (simp add: r scrape_calls_append)
    next
      case i2: (Inr fs2)
      from ro i1 i2 have r: "run w c = ([MkdirParent (cfg_output_csv c), MkdirParent (cfg_output_json c),
                 Stdout (''jobspy: Search term: '' @ cfg_search_term c),
                 Stdout (term_start_line c)] @ t1 @ t2 @
                [Stdout (''Found '' @ str_nat (length (concat (map rows (fs1 @ fs2)))) @ '' jobs''),
                 Stdout (term_complete_line c (length (concat (map rows (fs1 @ fs2))))),
                 ToCsv (cfg_output_csv c)
                   (remdups (concat (map columns (fs1 @ fs2))))
                   (concat (map rows (fs1 @ fs2))),
                 ToJson (cfg_output_json c) (concat (map rows (fs1 @ fs2))),
                 Stdout (''Wrote CSV:  '' @ cfg_output_csv c),
                 Stdout (''Wrote JSON: '' @ cfg_output_json c)], Inr 0)" by blast
      show ?thesis using p1[OF rd] p2[OF rd] e2 by (auto simp add: r scrape_calls_append)
    qed
  qed
  have ex1: "map (\<lambda>kw. (kw_site_name kw, kw_location kw)) (scrape_calls (fst (main uk_world)))
        = [([''indeed''], Some ''United Kingdom''), ([''glassdoor''], Some ''London'')]"
    by code_simp
  have ex2: "map (\<lambda>kw. (kw_site_name kw, kw_location kw)) (scrape_calls (fst (main glassdoor_first_world)))
        = [([''indeed'', ''linkedin''], Some ''Manchester''), ([''glassdoor''], Some ''Manchester'')]"
    by code_simp
  have ex3: "map (\<lambda>kw. (kw_site_name kw, kw_location kw)) (scrape_calls (fst (main unmapped_country_world)))
        = [([''glassdoor''], Some ''Portugal'')]"
    by code_simp
  have m: "main w = run w c" if "read_config w = Inr c"
    using that by (simp add: main_def)
  obtain msgs :: "string list" where
    "(choose_glassdoor_location c :: ('a, string) io)
       = (map Stdout msgs, Inr (spec_effective_location (cfg_location c) (cfg_country_indeed c)))"
    using choose_location_shape[of c] by blast
  then have cs: "snd (choose_glassdoor_location c :: ('a, string) io)
           = Inr (spec_effective_location (cfg_location c) (cfg_country_indeed c))"
    by simp
  from cs gen m ex1 ex2 ex3 show ?thesis
    by simp
qed

theorem glassdoor_location_rule_witness:
  "map_sum id (\<lambda>c. (cfg_sites c, cfg_location c, cfg_country_indeed c)) (read_config uk_world)
     = Inr ([''indeed'', ''glassdoor''], ''United Kingdom'', ''UK'')
   \<and> snd (main uk_world) = Inr 0
   \<and> is_country_level_location ''United Kingdom'' ''UK''
   \<and> glassdoor_city_for_country ''UK'' ''United Kingdom'' = Some ''London''
   \<and> spec_effective_location ''United Kingdom'' ''UK'' = ''London''
   \<and> list_ex (\<lambda>kw. kw_site_name kw = [''glassdoor'']) (scrape_calls (fst (main uk_world)))
   \<and> list_all (\<lambda>kw. kw_location kw =
                    Some (if kw_site_name kw = [''glassdoor''] then ''London''
                          else ''United Kingdom''))
        (scrape_calls (fst (main uk_world)))"
proof -
  let ?c = "projr (read_config uk_world)"
  have r: "read_config uk_world = Inr ?c" by code_simp
  have v: "map_sum id (\<lambda>c. (cfg_sites c, cfg_location c, cfg_country_indeed c))
             (read_config uk_world)
           = Inr ([''indeed'', ''glassdoor''], ''United Kingdom'', ''UK'')" by code_simp
  have g: "cfg_sites ?c = [''indeed'', ''glassdoor'']" by code_simp
  have l: "cfg_location ?c = ''United Kingdom''" by code_simp
  have k: "cfg_country_indeed ?c = ''UK''" by code_simp
  have h: "snd (main uk_world) = Inr 0" by code_simp
  have i: "is_country_level_location ''United Kingdom'' ''UK''" by code_simp
  have j: "glassdoor_city_for_country ''UK'' ''United Kingdom'' = Some ''London''" by code_simp
  have e: "spec_effective_location ''United Kingdom'' ''UK'' = ''London''" by code_simp
  from glassdoor_location_rule[of ?c uk_world 0] r h
  have "list_all
           (\<lambda>kw. kw_location kw =
                    Some (if kw_site_name kw = [''glassdoor'']
                          then spec_effective_location (cfg_location ?c) (cfg_country_indeed ?c)
                          else cfg_location ?c))
           (scrape_calls (fst (main uk_world)))"
    and "''glassdoor'' \<in> set (cfg_sites ?c)
         \<longrightarrow> list_ex (\<lambda>kw. kw_site_name kw = [''glassdoor'']) (scrape_calls (fst (main uk_world)))"
    by blast+
  then have "list_all (\<lambda>kw. kw_location kw =
                    Some (if kw_site_name kw = [''glassdoor''] then ''London''
                          else ''United Kingdom''))
        (scrape_calls (fst (main uk_world)))"
    and "list_ex (\<lambda>kw. kw_site_name kw = [''glassdoor'']) (scrape_calls (fst (main uk_world)))"
    unfolding g l k e by simp_all
  with v h i j e show ?thesis by blast
qed

section \<open>The progress emitter\<close>







section \<open>The configuration resolver, integer settings\<close>

lemma py_int_abc: "py_int ''abc'' = None"
  by code_simp

text \<open>
  C8. An integer setting whose variable is absent or blank (whitespace only) resolves
  to its default, and so does one whose value cannot be parsed as an integer: the
  failure of the parse is a value of the program, not a failure of the run. A value of
  \<open>"abc"\<close> for the results wanted gives the default 200.
\<close>

theorem env_int_falls_back_to_default:
  "(env name = None \<longrightarrow> env_int env name d = d)
   \<and> (env name = Some v \<and> list_all py_isspace v \<longrightarrow> env_int env name d = d)
   \<and> (env name = Some v \<and> py_int v = None \<longrightarrow> env_int env name d = d)
   \<and> (env name = Some v \<and> \<not> list_all py_isspace v \<and> py_int v = Some n \<longrightarrow>
        env_int env name d = n)
   \<and> py_int ''abc'' = None
   \<and> map_sum id cfg_results_wanted
        (read_config \<lparr>getenv = map_of [(''JOBSPY_RESULTS_WANTED'', ''abc'')],
                      scrape_jobs = sj, path_str = ps,
                      with_suffix = (\<lambda>p s. Inr (ws p s))\<rparr>) = Inr 200
   \<and> snd (main unparsable_world) = Inr 0
   \<and> map kw_results_wanted (scrape_calls (fst (main unparsable_world))) = [200]
   \<and> map (\<lambda>v. env_int (map_of [(''JOBSPY_RESULTS_WANTED'', v)]) ''JOBSPY_RESULTS_WANTED'' 200)
        [''abc'', ''12.5'', ''1e3'', ''0x10'', ''5 0'', ''--5'', ''1__0'', ''   '', '''',
         '' 50 '', ''-3'', ''1_000'']
      = [200, 200, 200, 200, 200, 200, 200, 200, 200, 50, - 3, 1000]"
proof -
  have a: "env name = None \<longrightarrow> env_int env name d = d"
    by (simp add: env_int_def)
  have b: "env name = Some v \<and> list_all py_isspace v \<longrightarrow> env_int env name d = d"
    by (simp add: env_int_def strip_Nil_iff)
  have c: "env name = Some v \<and> py_int v = None \<longrightarrow> env_int env name d = d"
    by (simp add: env_int_def)
  have e: "env name = Some v \<and> \<not> list_all py_isspace v \<and> py_int v = Some n \<longrightarrow>
        env_int env name d = n"
    by (simp add: env_int_def strip_Nil_iff)
  have nb: "py_strip ''abc'' \<noteq> []" by code_simp
  have f: "map_sum id cfg_results_wanted
        (read_config \<lparr>getenv = map_of [(''JOBSPY_RESULTS_WANTED'', ''abc'')],
                      scrape_jobs = sj, path_str = ps,
                      with_suffix = (\<lambda>p s. Inr (ws p s))\<rparr>) = Inr 200"
    by (simp add: read_config_def Let_def env_int_def py_int_abc nb)
  have u1: "snd (main unparsable_world) = Inr 0" by code_simp
  have u2: "map kw_results_wanted (scrape_calls (fst (main unparsable_world))) = [200]"
    by code_simp
  have g: "map (\<lambda>v. env_int (map_of [(''JOBSPY_RESULTS_WANTED'', v)]) ''JOBSPY_RESULTS_WANTED'' 200)
        [''abc'', ''12.5'', ''1e3'', ''0x10'', ''5 0'', ''--5'', ''1__0'', ''   '', '''',
         '' 50 '', ''-3'', ''1_000'']
      = [200, 200, 200, 200, 200, 200, 200, 200, 200, 50, - 3, 1000]"
    by code_simp
  from a b c e py_int_abc f u1 u2 g show ?thesis by blast
qed

theorem env_int_falls_back_to_default_witness:
  "map_of [(''JOBSPY_RESULTS_WANTED'', ''abc'')] ''JOBSPY_RESULTS_WANTED'' = Some ''abc''
   \<and> py_int ''abc'' = None
   \<and> env_int (map_of [(''JOBSPY_RESULTS_WANTED'', ''abc'')]) ''JOBSPY_RESULTS_WANTED'' 200 = 200
   \<and> map_of [(''JOBSPY_RESULTS_WANTED'', ''abc'')] ''JOBSPY_HOURS_OLD'' = None
   \<and> env_int (map_of [(''JOBSPY_RESULTS_WANTED'', ''abc'')]) ''JOBSPY_HOURS_OLD'' 72 = 72
   \<and> list_all py_isspace ''  ''
   \<and> env_int (map_of [(''JOBSPY_TERM_INDEX'', ''  '')]) ''JOBSPY_TERM_INDEX'' 1 = 1
   \<and> \<not> list_all py_isspace ''42'' \<and> py_int ''42'' = Some 42
   \<and> env_int (map_of [(''JOBSPY_TERM_TOTAL'', ''42'')]) ''JOBSPY_TERM_TOTAL'' 1 = 42"
proof -
  have l1: "map_of [(''JOBSPY_RESULTS_WANTED'', ''abc'')] ''JOBSPY_RESULTS_WANTED'' = Some ''abc''"
    by simp
  have l2: "map_of [(''JOBSPY_RESULTS_WANTED'', ''abc'')] ''JOBSPY_HOURS_OLD'' = None"
    by simp
  have l3: "map_of [(''JOBSPY_TERM_INDEX'', ''  '')] ''JOBSPY_TERM_INDEX'' = Some ''  ''"
    by simp
  have l4: "map_of [(''JOBSPY_TERM_TOTAL'', ''42'')] ''JOBSPY_TERM_TOTAL'' = Some ''42''"
    by simp
  have p: "py_int ''abc'' = None" by code_simp
  have s: "list_all py_isspace ''  ''" by code_simp
  have n: "\<not> list_all py_isspace ''42''" by code_simp
  have q: "py_int ''42'' = Some 42" by code_simp
  from env_int_falls_back_to_default[of "map_of [(''JOBSPY_RESULTS_WANTED'', ''abc'')]"
      "''JOBSPY_RESULTS_WANTED''" 200 "''abc''"] l1 p
  have r1: "env_int (map_of [(''JOBSPY_RESULTS_WANTED'', ''abc'')]) ''JOBSPY_RESULTS_WANTED'' 200 = 200"
    by blast
  from env_int_falls_back_to_default[of "map_of [(''JOBSPY_RESULTS_WANTED'', ''abc'')]"
      "''JOBSPY_HOURS_OLD''" 72] l2
  have r2: "env_int (map_of [(''JOBSPY_RESULTS_WANTED'', ''abc'')]) ''JOBSPY_HOURS_OLD'' 72 = 72"
    by blast
  from env_int_falls_back_to_default[of "map_of [(''JOBSPY_TERM_INDEX'', ''  '')]"
      "''JOBSPY_TERM_INDEX''" 1 "''  ''"] l3 s
  have r3: "env_int (map_of [(''JOBSPY_TERM_INDEX'', ''  '')]) ''JOBSPY_TERM_INDEX'' 1 = 1"
    by blast
  from env_int_falls_back_to_default[of "map_of [(''JOBSPY_TERM_TOTAL'', ''42'')]"
      "''JOBSPY_TERM_TOTAL''" 1 "''42''" 42] l4 n q
  have r4: "env_int (map_of [(''JOBSPY_TERM_TOTAL'', ''42'')]) ''JOBSPY_TERM_TOTAL'' 1 = 42"
    by blast
  from l1 l2 p s n q r1 r2 r3 r4 show ?thesis by blast
qed

section \<open>The run with no site\<close>

lemma str_nat_0: "str_nat 0 = ''0''"
  by code_simp

lemma blank_sites_variable_gives_default:
  "getenv w ''JOBSPY_SITES'' = Some v \<Longrightarrow> list_all py_isspace v
   \<Longrightarrow> read_config w = Inr c \<Longrightarrow> cfg_sites c = [''indeed'', ''linkedin'']"
proof -
  assume a: "getenv w ''JOBSPY_SITES'' = Some v" "list_all py_isspace v"
    and r: "read_config w = Inr c"
  have p: "parse_sites ''indeed,linkedin'' = [''indeed'', ''linkedin'']" by code_simp
  from a r show ?thesis
    by (auto simp: read_config_def Let_def env_str_def strip_Nil_iff p split: sum.splits)
qed

text \<open>
  C9. When the requested site list is empty, both groups are empty and no fetch is
  made; the batch has size 0; both output files are still written, with no record, the
  delimited file with its header row, which names the columns of the batch (the empty
  batch has none); and the run returns 0. The trace is given in full. The list is empty
  for a sites variable such as a lone comma; a blank variable asks for the default
  sites.
\<close>

theorem empty_sites_run:
  fixes w :: "'a world"
  shows "(cfg_sites c = [] \<longrightarrow>
      spec_generic_group (cfg_sites c) = [] \<and> spec_city_group (cfg_sites c) = [] \<and>
      run w c =
        ([MkdirParent (cfg_output_csv c), MkdirParent (cfg_output_json c),
          Stdout (''jobspy: Search term: '' @ cfg_search_term c),
          Stdout (term_start_line c),
          Stdout ''Found 0 jobs'',
          Stdout (term_complete_line c 0),
          ToCsv (cfg_output_csv c) [] [],
          ToJson (cfg_output_json c) [],
          Stdout (''Wrote CSV:  '' @ cfg_output_csv c),
          Stdout (''Wrote JSON: '' @ cfg_output_json c)], Inr 0))
   \<and> parse_sites '','' = [] \<and> parse_sites '' , ,'' = []
   \<and> map_sum id cfg_sites (read_config no_sites_world) = Inr []
   \<and> main no_sites_world =
        ([MkdirParent ''jobs.csv'', MkdirParent ''jobs.json'',
          Stdout ''jobspy: Search term: web developer'',
          Stdout (''JOBOPS_PROGRESS {'' @ dq ''event'' @ '': '' @ dq ''term_start'' @ '', ''
                   @ dq ''termIndex'' @ '': 1, '' @ dq ''termTotal'' @ '': 1, ''
                   @ dq ''searchTerm'' @ '': '' @ dq ''web developer'' @ ''}''),
          Stdout ''Found 0 jobs'',
          Stdout (''JOBOPS_PROGRESS {'' @ dq ''event'' @ '': '' @ dq ''term_complete'' @ '', ''
                   @ dq ''termIndex'' @ '': 1, '' @ dq ''termTotal'' @ '': 1, ''
                   @ dq ''searchTerm'' @ '': '' @ dq ''web developer'' @ '', ''
                   @ dq ''jobsFoundTerm'' @ '': 0}''),
          ToCsv ''jobs.csv'' [] [],
          ToJson ''jobs.json'' [],
          Stdout ''Wrote CSV:  jobs.csv'',
          Stdout ''Wrote JSON: jobs.json''], Inr 0)"
proof -
  have gen: "cfg_sites c = [] \<longrightarrow>
      spec_generic_group (cfg_sites c) = [] \<and> spec_city_group (cfg_sites c) = [] \<and>
      run w c =
        ([MkdirParent (cfg_output_csv c), MkdirParent (cfg_output_json c),
          Stdout (''jobspy: Search term: '' @ cfg_search_term c),
          Stdout (term_start_line c),
          Stdout ''Found 0 jobs'',
          Stdout (term_complete_line c 0),
          ToCsv (cfg_output_csv c) [] [],
          ToJson (cfg_output_json c) [],
          Stdout (''Wrote CSV:  '' @ cfg_output_csv c),
          Stdout (''Wrote JSON: '' @ cfg_output_json c)], Inr 0)"
  proof
    assume e: "cfg_sites c = []"
    then have s1: "scrape_non_glassdoor w c = ([], Inr [])"
      by (simp add: non_glassdoor_none)
    from e have s2: "scrape_glassdoor w c = ([], Inr [])"
      by (simp add: glassdoor_none)
    from e have g: "spec_generic_group (cfg_sites c) = [] \<and> spec_city_group (cfg_sites c) = []"
      by (simp add: spec_generic_group_def spec_city_group_def)
    from run_obs[OF s1 s2] have "run w c =
        ([MkdirParent (cfg_output_csv c), MkdirParent (cfg_output_json c),
          Stdout (''jobspy: Search term: '' @ cfg_search_term c),
          Stdout (term_start_line c),
          Stdout ''Found 0 jobs'',
          Stdout (term_complete_line c 0),
          ToCsv (cfg_output_csv c) [] [],
          ToJson (cfg_output_json c) [],
          Stdout (''Wrote CSV:  '' @ cfg_output_csv c),
          Stdout (''Wrote JSON: '' @ cfg_output_json c)], Inr 0)"
      by (simp add: str_nat_0)
    with g show "spec_generic_group (cfg_sites c) = [] \<and> spec_city_group (cfg_sites c) = [] \<and>
      run w c =
        ([MkdirParent (cfg_output_csv c), MkdirParent (cfg_output_json c),
          Stdout (''jobspy: Search term: '' @ cfg_search_term c),
          Stdout (term_start_line c),
          Stdout ''Found 0 jobs'',
          Stdout (term_complete_line c 0),
          ToCsv (cfg_output_csv c) [] [],
          ToJson (cfg_output_json c) [],
          Stdout (''Wrote CSV:  '' @ cfg_output_csv c),
          Stdout (''Wrote JSON: '' @ cfg_output_json c)], Inr 0)"
      by blast
  qed
  have p1: "parse_sites '','' = []" by code_simp
  have p2: "parse_sites '' , ,'' = []" by code_simp
  have p3: "map_sum id cfg_sites (read_config no_sites_world) = Inr []" by code_simp
  have m: "main no_sites_world =
        ([MkdirParent ''jobs.csv'', MkdirParent ''jobs.json'',
          Stdout ''jobspy: Search term: web developer'',
          Stdout (''JOBOPS_PROGRESS {'' @ dq ''event'' @ '': '' @ dq ''term_start'' @ '', ''
                   @ dq ''termIndex'' @ '': 1, '' @ dq ''termTotal'' @ '': 1, ''
                   @ dq ''searchTerm'' @ '': '' @ dq ''web developer'' @ ''}''),
          Stdout ''Found 0 jobs'',
          Stdout (''JOBOPS_PROGRESS {'' @ dq ''event'' @ '': '' @ dq ''term_complete'' @ '', ''
                   @ dq ''termIndex'' @ '': 1, '' @ dq ''termTotal'' @ '': 1, ''
                   @ dq ''searchTerm'' @ '': '' @ dq ''web developer'' @ '', ''
                   @ dq ''jobsFoundTerm'' @ '': 0}''),
          ToCsv ''jobs.csv'' [] [],
          ToJson ''jobs.json'' [],
          Stdout ''Wrote CSV:  jobs.csv'',
          Stdout ''Wrote JSON: jobs.json''], Inr 0)"
    by code_simp
  from gen p1 p2 p3 m show ?thesis by blast
qed

theorem empty_sites_run_witness:
  "map_sum id cfg_sites (read_config no_sites_world) = Inr []
   \<and> scrape_calls (fst (main no_sites_world)) = []
   \<and> csv_batches (fst (main no_sites_world)) = [[]]
   \<and> json_batches (fst (main no_sites_world)) = [[]]
   \<and> snd (main no_sites_world) = Inr 0"
proof -
  let ?c = "projr (read_config no_sites_world)"
  have m: "main no_sites_world = run no_sites_world ?c" by code_simp
  have v: "map_sum id cfg_sites (read_config no_sites_world) = Inr []" by code_simp
  have e: "cfg_sites ?c = []" by code_simp
  from empty_sites_run[of ?c no_sites_world] e
  have "run no_sites_world ?c =
        ([MkdirParent (cfg_output_csv ?c),
          MkdirParent (cfg_output_json ?c),
          Stdout (''jobspy: Search term: '' @ cfg_search_term ?c),
          Stdout (term_start_line ?c),
          Stdout ''Found 0 jobs'',
          Stdout (term_complete_line ?c 0),
          ToCsv (cfg_output_csv ?c) [] [],
          ToJson (cfg_output_json ?c) [],
          Stdout (''Wrote CSV:  '' @ cfg_output_csv ?c),
          Stdout (''Wrote JSON: '' @ cfg_output_json ?c)], Inr 0)"
    by blast
  with v show ?thesis unfolding m by simp
qed

end
